theory Spec2Isabelle
  imports Complex_Main
begin

section \<open>JavaScript string primitives used by the layout code\<close>

text \<open>
  Text is a \<open>string\<close>, one \<open>char\<close> per code unit, so the code units U+0000 to
  U+00FF are the texts of the model. \<open>is_space\<close> is the JavaScript white-space class
  (the class behind \<open>\s\<close> and \<open>trim\<close>: white space and line terminators) in that
  range: tab, line feed, vertical tab, form feed, carriage return, space and the
  no-break space U+00A0. \<open>is_line_terminator\<close> holds the characters the regular
  expression dot refuses, in that range. The members of both classes beyond U+00FF
  (U+2028, U+FEFF, ...) are no characters of the model.
  Coordinates are IEEE doubles in the source and real numbers here. The word wrap is
  written for any type of widths that has an addition, a zero and an order, the
  doubles with their rounding and the real numbers alike.
\<close>

definition is_space :: "char \<Rightarrow> bool" where
  "is_space c \<longleftrightarrow>
     c = CHR 0x09 \<or> c = CHR 0x0A \<or> c = CHR 0x0B \<or> c = CHR 0x0C \<or> c = CHR 0x0D \<or> c = CHR '' ''
     \<or> c = CHR 0xA0"

definition is_line_terminator :: "char \<Rightarrow> bool" where
  "is_line_terminator c \<longleftrightarrow> c = CHR 0x0A \<or> c = CHR 0x0D"

text \<open>\<open>s.trim()\<close>\<close>

definition trim :: "string \<Rightarrow> string" where
  "trim s = rev (dropWhile is_space (rev (dropWhile is_space s)))"

text \<open>\<open>s.startsWith(p)\<close> and \<open>s.endsWith(p)\<close>\<close>

definition startsWith :: "string \<Rightarrow> string \<Rightarrow> bool" where
  "startsWith s p \<longleftrightarrow> take (length p) s = p"

definition endsWith :: "string \<Rightarrow> string \<Rightarrow> bool" where
  "endsWith s p \<longleftrightarrow> length p \<le> length s \<and> drop (length s - length p) s = p"

text \<open>\<open>s.slice(a, b)\<close>: a negative index counts from the end, both are clamped.\<close>

definition slice :: "string \<Rightarrow> int \<Rightarrow> int \<Rightarrow> string" where
  "slice s a b =
     (let n = int (length s);
          from = (if a < 0 then max (n + a) 0 else min a n);
          to = (if b < 0 then max (n + b) 0 else min b n)
      in take (nat (to - from)) (drop (nat from) s))"

text \<open>\<open>s.substring(a)\<close> for a non-negative \<open>a\<close>\<close>

definition substring :: "string \<Rightarrow> nat \<Rightarrow> string" where
  "substring s a = drop a s"

text \<open>\<open>s.replace(p, '')\<close> with a string pattern: the first occurrence is removed.\<close>

fun remove_first :: "string \<Rightarrow> string \<Rightarrow> string" where
  "remove_first p [] = []"
| "remove_first p (c # cs) =
     (if startsWith (c # cs) p then drop (length p) (c # cs) else c # remove_first p cs)"

text \<open>\<open>s.split('\n')\<close>; the first argument is the piece read so far.\<close>

fun split_nl :: "string \<Rightarrow> string \<Rightarrow> string list" where
  "split_nl cur [] = [cur]"
| "split_nl cur (c # cs) =
     (if c = CHR 0x0A then cur # split_nl [] cs else split_nl (cur @ [c]) cs)"

text \<open>
  \<open>s.split(/(\s+)/)\<close>: the words and, because of the capturing group, the maximal
  white-space runs between them, in order. A string that starts or ends with white
  space yields an empty first or last word.
\<close>

function split_ws :: "string \<Rightarrow> string \<Rightarrow> string list" where
  "split_ws cur [] = [cur]"
| "split_ws cur (c # cs) =
     (if is_space c
      then cur # (c # takeWhile is_space cs) # split_ws [] (dropWhile is_space cs)
      else split_ws (cur @ [c]) cs)"
  by pat_completeness auto
termination
  by (relation "measure (\<lambda>(cur, s). length s)")
     (auto simp: length_dropWhile_le less_Suc_eq_le)

text \<open>
  The pattern \<open>\*\*.*?\*\*\<close> after its opening pair has been read: \<open>find_close s\<close> is
  the number of characters the lazy \<open>.*?\<close> consumes before the first closing pair, and
  \<open>None\<close> when a line terminator or the end of the text comes first.
\<close>

fun find_close :: "string \<Rightarrow> nat option" where
  "find_close (c # d # cs) =
     (if c = CHR ''*'' \<and> d = CHR ''*'' then Some 0
      else if is_line_terminator c then None
      else map_option Suc (find_close (d # cs)))"
| "find_close _ = None"

text \<open>
  \<open>s.split(/(\*\*.*?\*\*)/g)\<close>: the text between matches and the matches themselves
  (delimiters included), alternating, starting and ending with a piece between
  matches that may be empty.
\<close>

function split_bold :: "string \<Rightarrow> string \<Rightarrow> string list" where
  "split_bold cur [] = [cur]"
| "split_bold cur (c # cs) =
     (if startsWith (c # cs) ''**''
      then (case find_close (drop 1 cs) of
              Some n \<Rightarrow> cur # take (n + 4) (c # cs) # split_bold [] (drop (n + 4) (c # cs))
            | None \<Rightarrow> split_bold (cur @ [c]) cs)
      else split_bold (cur @ [c]) cs)"
  by pat_completeness auto
termination
  by (relation "measure (\<lambda>(cur, s). length s)") auto

section \<open>Fonts, measured words and the greedy word wrap of drawRichText\<close>

datatype font = Helvetica | HelveticaBold

text \<open>
  \<open>font.widthOfTextAtSize(text, size)\<close> of the PDF library, when it returns, is a
  parameter of the model: a function from the font, the text and the size to a width.
  \<open>measure\<close> is its type when widths are real numbers.
\<close>

type_synonym measure = "font \<Rightarrow> string \<Rightarrow> real \<Rightarrow> real"

record 'w seg =
  seg_text :: string
  seg_isBold :: bool
  seg_width :: 'w

text \<open>The body of \<open>words.forEach\<close>: the state is \<open>(lines, currentLineWidth)\<close>.\<close>

definition add_word ::
  "(font \<Rightarrow> string \<Rightarrow> real \<Rightarrow> 'w::{plus,zero,ord}) \<Rightarrow> real \<Rightarrow> 'w \<Rightarrow> font \<Rightarrow> bool
     \<Rightarrow> 'w seg list list \<times> 'w \<Rightarrow> string \<Rightarrow> 'w seg list list \<times> 'w" where
  "add_word wd sz maxWidth fnt isB st word =
     (let wordWidth = wd fnt word sz;
          st1 = (if snd st + wordWidth > maxWidth \<and> trim word \<noteq> []
                 then (fst st @ [[]], 0) else st)
      in (butlast (fst st1) @
            [last (fst st1) @ [\<lparr>seg_text = word, seg_isBold = isB, seg_width = wordWidth\<rparr>]],
          snd st1 + wordWidth))"

text \<open>The body of \<open>segments.forEach\<close>.\<close>

definition add_segment ::
  "(font \<Rightarrow> string \<Rightarrow> real \<Rightarrow> 'w::{plus,zero,ord}) \<Rightarrow> real \<Rightarrow> 'w \<Rightarrow> font
     \<Rightarrow> 'w seg list list \<times> 'w \<Rightarrow> string \<Rightarrow> 'w seg list list \<times> 'w" where
  "add_segment wd sz maxWidth defaultFont st sg =
     (let isB = (startsWith sg ''**'' \<and> endsWith sg ''**'');
          cleanText = (if isB then slice sg 2 (- 2) else sg);
          fnt = (if isB then HelveticaBold else defaultFont);
          words = split_ws [] cleanText
      in foldl (add_word wd sz maxWidth fnt isB) st words)"

definition segments :: "string \<Rightarrow> string list" where
  "segments txt = filter (\<lambda>s. s \<noteq> []) (split_bold [] txt)"

definition wrap_lines ::
  "(font \<Rightarrow> string \<Rightarrow> real \<Rightarrow> 'w::{plus,zero,ord}) \<Rightarrow> real \<Rightarrow> 'w \<Rightarrow> font \<Rightarrow> string
     \<Rightarrow> 'w seg list list" where
  "wrap_lines wd sz maxWidth defaultFont txt =
     fst (foldl (add_segment wd sz maxWidth defaultFont) ([[]], 0) (segments txt))"

section \<open>The document, the layout cursor and placement\<close>

type_synonym color = "real \<times> real \<times> real"

definition rgb :: "real \<Rightarrow> real \<Rightarrow> real \<Rightarrow> color" where
  "rgb r g b = (r, g, b)"

datatype align = AlignLeft | AlignCenter

text \<open>The A4 page of \<open>addPage([595.28, 841.89])\<close>, as \<open>page.getSize()\<close> returns it.\<close>

definition width :: real where
  "width = 595.28"

definition height :: real where
  "height = 841.89"

definition margin :: real where
  "margin = 50"

text \<open>One \<open>page.drawText\<close> call, with the index of the page it went to.\<close>

record text_run =
  run_page :: nat
  run_text :: string
  run_x :: real
  run_y :: real
  run_size :: real
  run_font :: font
  run_color :: color

text \<open>One \<open>page.drawLine\<close> call.\<close>

record rule_line =
  rule_page :: nat
  rule_start :: "real \<times> real"
  rule_end :: "real \<times> real"
  rule_thickness :: real
  rule_color :: color

text \<open>
  The mutable variables of the export pass: \<open>page\<close> (as the index of the page last
  added, which is the one drawn on) and \<open>currentY\<close>, with what has been drawn so far.
\<close>

record layout =
  page :: nat
  currentY :: real
  runs :: "text_run list"
  rules :: "rule_line list"

definition addPage :: "layout \<Rightarrow> layout" where
  "addPage L = L\<lparr>page := Suc (page L), currentY := height - margin\<rparr>"

definition drawText :: "layout \<Rightarrow> string \<Rightarrow> real \<Rightarrow> real \<Rightarrow> real \<Rightarrow> font \<Rightarrow> color \<Rightarrow> layout" where
  "drawText L txt x y sz fnt col =
     L\<lparr>runs := runs L @
          [\<lparr>run_page = page L, run_text = txt, run_x = x, run_y = y, run_size = sz,
            run_font = fnt, run_color = col\<rparr>]\<rparr>"

text \<open>The options object of drawRichText; an absent field is \<open>None\<close>.\<close>

record options =
  opt_size :: "real option"
  opt_defaultFont :: "font option"
  opt_color :: "color option"
  opt_align :: "align option"

text \<open>\<open>lineSegments.reduce((acc, seg) => acc + seg.width, 0)\<close>\<close>

definition fullLineWidth :: "('w::{plus,zero}) seg list \<Rightarrow> 'w" where
  "fullLineWidth lineSegments = foldl (\<lambda>acc s. acc + seg_width s) 0 lineSegments"

text \<open>The body of \<open>lines.forEach\<close> in drawRichText: page check, placement, cursor step.\<close>

definition draw_line ::
  "real \<Rightarrow> font \<Rightarrow> color \<Rightarrow> align \<Rightarrow> layout \<Rightarrow> real seg list \<Rightarrow> layout" where
  "draw_line sz defaultFont col al L lineSegments =
     (let L1 = (if currentY L < margin + 20 then addPage L else L);
          startX = (if al = AlignCenter then (width - fullLineWidth lineSegments) / 2 else margin);
          L2 = fst (foldl (\<lambda>(La, cursorX) s.
                      (drawText La (seg_text s) cursorX (currentY La) sz
                         (if seg_isBold s then HelveticaBold else defaultFont) col,
                       cursorX + seg_width s))
                    (L1, startX) lineSegments)
      in L2\<lparr>currentY := currentY L2 - sz * 1.5\<rparr>)"

text \<open>The four defaults \<open>options.size || 10\<close>, ...; a size of zero is falsy too.\<close>

definition size_of :: "options \<Rightarrow> real" where
  "size_of opts = (case opt_size opts of None \<Rightarrow> 10 | Some z \<Rightarrow> if z = 0 then 10 else z)"

definition defaultFont_of :: "options \<Rightarrow> font" where
  "defaultFont_of opts = (case opt_defaultFont opts of None \<Rightarrow> Helvetica | Some f \<Rightarrow> f)"

definition color_of :: "options \<Rightarrow> color" where
  "color_of opts = (case opt_color opts of None \<Rightarrow> rgb 0 0 0 | Some c \<Rightarrow> c)"

definition align_of :: "options \<Rightarrow> align" where
  "align_of opts = (case opt_align opts of None \<Rightarrow> AlignLeft | Some a \<Rightarrow> a)"

definition drawRichText :: "measure \<Rightarrow> string \<Rightarrow> options \<Rightarrow> layout \<Rightarrow> layout" where
  "drawRichText wd txt opts L =
     (let sz = size_of opts;
          defaultFont = defaultFont_of opts;
          col = color_of opts;
          al = align_of opts;
          maxWidth = width - margin * 2;
          lines = wrap_lines wd sz maxWidth defaultFont txt;
          L1 = foldl (draw_line sz defaultFont col al) L lines
      in L1\<lparr>currentY := currentY L1 - sz * 0.4\<rparr>)"

subsection \<open>The bullet branch\<close>

record line_word =
  lw_text :: string
  lw_font :: font

text \<open>
  The bullet glyph U+2022 lies beyond the characters of the model; the three
  characters of its UTF-8 form stand for it. It is drawn and nothing else.
\<close>

definition bullet_glyph :: string where
  "bullet_glyph = [CHR 0xE2, CHR 0x80, CHR 0xA2]"

definition bulletMargin :: real where
  "bulletMargin = margin + 15"

text \<open>\<open>lineWords.forEach\<close>: the words of one line, left to right from the bullet indent.\<close>

definition draw_words :: "measure \<Rightarrow> real \<Rightarrow> layout \<Rightarrow> line_word list \<Rightarrow> layout" where
  "draw_words wd sz L lineWords =
     fst (foldl (\<lambda>(La, cX) lw.
            (drawText La (lw_text lw) cX (currentY La) sz (lw_font lw) (rgb 0 0 0),
             cX + wd (lw_font lw) (lw_text lw) sz))
          (L, bulletMargin) lineWords)"

text \<open>
  The overflow branch of the bullet loop, as far as the layout goes: the collected
  words are drawn, the cursor steps down, and only then comes the page check.
\<close>

definition flush_line :: "measure \<Rightarrow> real \<Rightarrow> layout \<Rightarrow> line_word list \<Rightarrow> layout" where
  "flush_line wd sz L lineWords =
     (let La = draw_words wd sz L lineWords;
          Lb = La\<lparr>currentY := currentY La - sz * 1.5\<rparr>
      in if currentY Lb < margin + 20 then addPage Lb else Lb)"

text \<open>The body of \<open>words.forEach\<close>: the state is \<open>(lineWords, currentW)\<close> and the layout.\<close>

definition bullet_word ::
  "measure \<Rightarrow> real \<Rightarrow> real \<Rightarrow> font \<Rightarrow> (line_word list \<times> real) \<times> layout \<Rightarrow> string
     \<Rightarrow> (line_word list \<times> real) \<times> layout" where
  "bullet_word wd sz maxWidth fnt st w =
     (let wW = wd fnt w sz;
          st1 = (if snd (fst st) + wW > maxWidth \<and> trim w \<noteq> []
                 then (([], 0), flush_line wd sz (snd st) (fst (fst st)))
                 else st)
      in ((fst (fst st1) @ [\<lparr>lw_text = w, lw_font = fnt\<rparr>], snd (fst st1) + wW), snd st1))"

definition bullet_segment ::
  "measure \<Rightarrow> real \<Rightarrow> real \<Rightarrow> (line_word list \<times> real) \<times> layout \<Rightarrow> string
     \<Rightarrow> (line_word list \<times> real) \<times> layout" where
  "bullet_segment wd sz maxWidth st sg =
     (let isB = (startsWith sg ''**'' \<and> endsWith sg ''**'');
          cleanT = (if isB then slice sg 2 (- 2) else sg);
          fnt = (if isB then HelveticaBold else Helvetica);
          words = split_ws [] cleanT
      in foldl (bullet_word wd sz maxWidth fnt) st words)"

definition draw_bullet :: "measure \<Rightarrow> string \<Rightarrow> layout \<Rightarrow> layout" where
  "draw_bullet wd line L =
     (let bulletContent = substring line 2;
          sz = 10;
          L1 = drawText L bullet_glyph margin (currentY L) 12 Helvetica (rgb 0 0 0);
          maxWidth = width - bulletMargin - margin;
          st = foldl (bullet_segment wd sz maxWidth) (([], 0), L1) (segments bulletContent);
          L2 = draw_words wd sz (snd st) (fst (fst st))
      in L2\<lparr>currentY := currentY L2 - sz * 1.7\<rparr>)"

subsection \<open>The pass over the lines of the content\<close>

text \<open>The body of the \<open>for\<close> loop of handleDownloadPDF for index \<open>i\<close>.\<close>

definition layout_line :: "measure \<Rightarrow> string list \<Rightarrow> layout \<Rightarrow> nat \<Rightarrow> layout" where
  "layout_line wd lines L i =
     (let line = trim (lines ! i) in
      if line = [] then L\<lparr>currentY := currentY L - 8\<rparr>
      else if startsWith line ''# '' then
        (let L1 = drawRichText wd (remove_first ''# '' line)
                    \<lparr>opt_size = Some 22, opt_defaultFont = Some HelveticaBold,
                     opt_color = None, opt_align = Some AlignCenter\<rparr> L
         in L1\<lparr>currentY := currentY L1 - 10\<rparr>)
      else if startsWith line ''## '' then
        (let L1 = L\<lparr>currentY := currentY L - 12\<rparr>;
             sectionTitle = remove_first ''## '' line;
             L2 = drawRichText wd sectionTitle
                    \<lparr>opt_size = Some 12, opt_defaultFont = Some HelveticaBold,
                     opt_color = Some (rgb 0.1 0.2 0.4), opt_align = None\<rparr> L1;
             L3 = L2\<lparr>rules := rules L2 @
                    [\<lparr>rule_page = page L2, rule_start = (margin, currentY L2 + 14),
                      rule_end = (width - margin, currentY L2 + 14), rule_thickness = 1,
                      rule_color = rgb 0.8 0.8 0.8\<rparr>]\<rparr>
         in L3\<lparr>currentY := currentY L3 - 6\<rparr>)
      else if startsWith line ''### '' then
        drawRichText wd (remove_first ''### '' line)
          \<lparr>opt_size = Some 11, opt_defaultFont = Some HelveticaBold,
           opt_color = None, opt_align = None\<rparr> L
      else if startsWith line ''- '' \<or> startsWith line ''* '' then
        draw_bullet wd line L
      else
        (let isContact = (i > 0 \<and> startsWith (lines ! (i - 1)) ''# '')
         in drawRichText wd line
              \<lparr>opt_size = Some 10, opt_defaultFont = Some Helvetica,
               opt_color = Some (if isContact then rgb 0.3 0.3 0.3 else rgb 0 0 0),
               opt_align = Some (if isContact then AlignCenter else AlignLeft)\<rparr> L))"

text \<open>The document after \<open>PDFDocument.create\<close> and the first \<open>addPage\<close>.\<close>

definition first_page :: layout where
  "first_page = \<lparr>page = 0, currentY = height - margin, runs = [], rules = []\<rparr>"

definition layout_content :: "measure \<Rightarrow> string \<Rightarrow> layout" where
  "layout_content wd content =
     (let lines = split_nl [] content
      in foldl (layout_line wd lines) first_page [0..<length lines])"

section \<open>The optimisation service\<close>

datatype SeniorityLevel = ENTRY | JUNIOR | MID | SENIOR | LEAD | EXECUTIVE

record ResumeData =
  content :: string
  rd_targetTitle :: string
  rd_seniority :: SeniorityLevel
  rd_jobDescription :: "string option"
  additionalContext :: "string option"

record OptimizationResult =
  optimizedContent :: string
  keyChanges :: "string list"
  suggestedSkills :: "string list"
  atsScore :: int

text \<open>A JSON value, as \<open>JSON.parse\<close> returns it; an object keeps its members in order.\<close>

datatype json =
  JNull | JBool bool | JNumber real | JString string | JArray "json list"
  | JObject "(string \<times> json) list"

text \<open>
  What awaiting \<open>ai.models.generateContent\<close> gives: the call throws an error with a
  message, or returns a response whose \<open>text\<close> is a string or undefined.
\<close>

datatype api_response = CallFails string | Response "string option"

text \<open>
  optimizeResume of services/geminiService.ts. The request and the parser are the
  platform's: \<open>generate\<close> stands for building the prompt and awaiting the call,
  \<open>JSON_parse\<close> for \<open>JSON.parse\<close> (\<open>Inl\<close> is the message of the SyntaxError it
  throws). The result is \<open>Inl\<close> the message of the error the promise rejects with, or
  \<open>Inr\<close> the parsed value, which the source casts to OptimizationResult unchecked.
\<close>

definition optimizeResume ::
  "(string \<Rightarrow> string + json) \<Rightarrow> (ResumeData \<Rightarrow> api_response) \<Rightarrow> ResumeData \<Rightarrow> string + json" where
  "optimizeResume JSON_parse generate data =
     (case generate data of
        CallFails m \<Rightarrow> Inl ''Failed to optimize resume. Please check your input and try again.''
      | Response text \<Rightarrow>
          (case JSON_parse (case text of None \<Rightarrow> ''{}'' | Some t \<Rightarrow> if t = [] then ''{}'' else t) of
             Inl m \<Rightarrow> Inl ''Failed to optimize resume. Please check your input and try again.''
           | Inr result \<Rightarrow> Inr result))"

text \<open>
  optimizeResume of the second copy of the service (the one kept with the rasterising
  App): an absent or empty text throws, and the caught message is wrapped.
\<close>

definition wrap_message :: "string \<Rightarrow> string" where
  "wrap_message m =
     ''Optimization failed: '' @ (if m = [] then ''Unknown error'' else m) @ ''. Please try again.''"

definition optimizeResume_raster ::
  "(string \<Rightarrow> string + json) \<Rightarrow> (ResumeData \<Rightarrow> api_response) \<Rightarrow> ResumeData \<Rightarrow> string + json" where
  "optimizeResume_raster JSON_parse generate data =
     (case generate data of
        CallFails m \<Rightarrow> Inl (wrap_message m)
      | Response text \<Rightarrow>
          (case text of
             None \<Rightarrow> Inl (wrap_message ''No response text received from AI.'')
           | Some t \<Rightarrow>
               if t = [] then Inl (wrap_message ''No response text received from AI.'')
               else (case JSON_parse t of
                       Inl m \<Rightarrow> Inl (wrap_message m)
                     | Inr result \<Rightarrow> Inr result)))"

text \<open>The fields the response schema lists as required.\<close>

definition required_fields :: "string list" where
  "required_fields = [''optimizedContent'', ''keyChanges'', ''suggestedSkills'', ''atsScore'']"

definition has_required_fields :: "json \<Rightarrow> bool" where
  "has_required_fields j =
     (case j of JObject members \<Rightarrow> list_all (\<lambda>k. k \<in> set (map fst members)) required_fields
              | _ \<Rightarrow> False)"

section \<open>The state of the App component and its handlers\<close>

text \<open>
  The state variables both copies of App share, then the ones each adds: the copy with
  the vector export has \<open>jobDescription\<close>, the rasterising copy has \<open>fileParsing\<close>.
  The handlers are modelled at their TypeScript types: what optimizeResume resolves to
  is an OptimizationResult, what it rejects with is the message of the error.
\<close>

record editor =
  step :: nat
  loading :: bool
  downloading :: bool
  error :: "string option"
  inputContent :: string
  targetTitle :: string
  seniority :: SeniorityLevel
  context_text :: string
  result :: "OptimizationResult option"

record app_state = editor +
  jobDescription :: string

record app_state_raster = editor +
  fileParsing :: bool

text \<open>The argument object handleOptimize passes to optimizeResume.\<close>

definition optimize_request :: "app_state \<Rightarrow> ResumeData" where
  "optimize_request st =
     \<lparr>content = inputContent st, rd_targetTitle = targetTitle st, rd_seniority = seniority st,
      rd_jobDescription = Some (jobDescription st), additionalContext = Some (context_text st)\<rparr>"

definition handleOptimize ::
  "(ResumeData \<Rightarrow> string + OptimizationResult) \<Rightarrow> app_state \<Rightarrow> app_state" where
  "handleOptimize optimize st =
     (if trim (inputContent st) = [] \<or> trim (targetTitle st) = []
      then st\<lparr>error := Some ''Resume text and target job title are required.''\<rparr>
      else
        (let st1 = st\<lparr>loading := True, error := None\<rparr>;
             st2 = (case optimize (optimize_request st) of
                      Inr optimized \<Rightarrow>
                        st1\<lparr>result := Some optimized,
                            inputContent := optimizedContent optimized, step := 2\<rparr>
                    | Inl message \<Rightarrow>
                        st1\<lparr>error := Some (if message = []
                                            then ''Optimization failed. Please try again.''
                                            else message)\<rparr>)
         in st2\<lparr>loading := False\<rparr>))"

definition optimize_request_raster :: "app_state_raster \<Rightarrow> ResumeData" where
  "optimize_request_raster st =
     \<lparr>content = inputContent st, rd_targetTitle = targetTitle st, rd_seniority = seniority st,
      rd_jobDescription = None, additionalContext = Some (context_text st)\<rparr>"

definition handleOptimize_raster ::
  "(ResumeData \<Rightarrow> string + OptimizationResult) \<Rightarrow> app_state_raster \<Rightarrow> app_state_raster" where
  "handleOptimize_raster optimize st =
     (if trim (inputContent st) = []
      then st\<lparr>error := Some ''Please provide your current resume content.''\<rparr>
      else if trim (targetTitle st) = []
      then st\<lparr>error := Some ''Please specify a target job title.''\<rparr>
      else
        (let st1 = st\<lparr>loading := True, error := None\<rparr>;
             st2 = (case optimize (optimize_request_raster st) of
                      Inr optimized \<Rightarrow> st1\<lparr>result := Some optimized, step := 2\<rparr>
                    | Inl message \<Rightarrow>
                        st1\<lparr>error := Some (if message = []
                                            then ''An unexpected error occurred.''
                                            else message)\<rparr>)
         in st2\<lparr>loading := False\<rparr>))"

subsection \<open>File upload\<close>

type_synonym bytes = "nat list"

record upload =
  file_name :: string
  file_data :: bytes

text \<open>
  \<open>s.toLowerCase()\<close>: the capital letters up to U+00FF are A to Z and U+00C0 to
  U+00DE without the multiplication sign U+00D7; each has its small letter 32 higher.
\<close>

definition toLowerCase :: "string \<Rightarrow> string" where
  "toLowerCase s =
     map (\<lambda>c. if ((65::nat) \<le> of_char c \<and> of_char c \<le> (90::nat))
                 \<or> ((192::nat) \<le> of_char c \<and> of_char c \<le> (222::nat) \<and> of_char c \<noteq> (215::nat))
              then char_of (of_char c + (32::nat)) else c) s"

text \<open>\<open>items.join(' ')\<close>\<close>

fun join_space :: "string list \<Rightarrow> string" where
  "join_space [] = []"
| "join_space [x] = x"
| "join_space (x # y # ys) = x @ '' '' @ join_space (y # ys)"

text \<open>
  The decoders are libraries: \<open>getDocument\<close> gives the text items of each page of a
  PDF, \<open>extractRawText\<close> the text of a DOCX, both \<open>Inl\<close> the message of the error
  when they throw (the empty text for an error without a message);
  \<open>decode\<close> is \<open>TextDecoder.decode\<close>, which does not throw.
\<close>

record decoders =
  getDocument :: "bytes \<Rightarrow> string + string list list"
  extractRawText :: "bytes \<Rightarrow> string + string"
  decode :: "bytes \<Rightarrow> string"

definition extractTextFromPDF :: "decoders \<Rightarrow> bytes \<Rightarrow> string + string" where
  "extractTextFromPDF lib arrayBuffer =
     (case getDocument lib arrayBuffer of
        Inl m \<Rightarrow> Inl m
      | Inr pdf \<Rightarrow>
          Inr (foldl (\<lambda>fullText items. fullText @ join_space items @ [CHR 0x0A]) [] pdf))"

text \<open>
  handleFileUpload of App.tsx; a decoder that throws lands in the catch clause, which
  sets its own message whatever was thrown.
\<close>

definition handleFileUpload :: "decoders \<Rightarrow> upload option \<Rightarrow> app_state \<Rightarrow> app_state" where
  "handleFileUpload lib e st =
     (case e of
        None \<Rightarrow> st
      | Some file \<Rightarrow>
          (let st1 = st\<lparr>error := None\<rparr>;
               fileName = toLowerCase (file_name file);
               arrayBuffer = file_data file;
               extracted =
                 (if endsWith fileName ''.pdf'' then extractTextFromPDF lib arrayBuffer
                  else if endsWith fileName ''.docx'' then extractRawText lib arrayBuffer
                  else Inr (decode lib arrayBuffer))
           in case extracted of
                Inr extractedText \<Rightarrow> st1\<lparr>inputContent := extractedText\<rparr>
              | Inl m \<Rightarrow>
                  st1\<lparr>error :=
                    Some ''Failed to process file. Ensure it is a valid PDF, DOCX, or text file.''\<rparr>))"

text \<open>
  handleFileUpload of the rasterising copy: \<open>Inl\<close> is the message of the error
  thrown inside the \<open>try\<close> block, by a decoder or by the handler itself; the catch
  clause shows it, or its own text when the message is empty.
\<close>

definition handleFileUpload_raster ::
  "decoders \<Rightarrow> upload option \<Rightarrow> app_state_raster \<Rightarrow> app_state_raster" where
  "handleFileUpload_raster lib e st =
     (case e of
        None \<Rightarrow> st
      | Some file \<Rightarrow>
          (let st1 = st\<lparr>fileParsing := True, error := None\<rparr>;
               fileName = toLowerCase (file_name file);
               arrayBuffer = file_data file;
               extracted =
                 (if endsWith fileName ''.pdf'' then extractTextFromPDF lib arrayBuffer
                  else if endsWith fileName ''.docx'' then extractRawText lib arrayBuffer
                  else if endsWith fileName ''.txt'' \<or> endsWith fileName ''.md''
                  then Inr (decode lib arrayBuffer)
                  else Inl ''Unsupported file type. Please upload PDF, DOCX, TXT, or MD.'');
               checked =
                 (case extracted of
                    Inl m \<Rightarrow> Inl m
                  | Inr extractedText \<Rightarrow>
                      if trim extractedText = []
                      then Inl ''The file seems to be empty or contains no extractable text.''
                      else Inr extractedText);
               st2 = (case checked of
                        Inr extractedText \<Rightarrow> st1\<lparr>inputContent := extractedText\<rparr>
                      | Inl m \<Rightarrow>
                          st1\<lparr>error := Some (if m = []
                            then ''Failed to process the file. Please try again or copy-paste the text.''
                            else m)\<rparr>)
           in st2\<lparr>fileParsing := False\<rparr>))"

subsection \<open>PDF export\<close>

definition contentToExport :: "app_state \<Rightarrow> string" where
  "contentToExport st =
     (if step st = 1 then inputContent st
      else (case result st of
              None \<Rightarrow> inputContent st
            | Some r \<Rightarrow> if optimizedContent r = [] then inputContent st else optimizedContent r))"

text \<open>
  \<open>font.widthOfTextAtSize(text, size)\<close> as the library has it: \<open>None\<close> when it
  throws, which it does on a character the encoding of the standard fonts lacks (a
  tab, a control character). \<open>width_of\<close> is the width where it returns.
\<close>

type_synonym metric = "font \<Rightarrow> string \<Rightarrow> real \<Rightarrow> real option"

definition width_of :: "metric \<Rightarrow> measure" where
  "width_of m f s z = (case m f s z of Some w \<Rightarrow> w | None \<Rightarrow> 0)"

text \<open>
  The words a text is cut into, each with the font it is measured and drawn in: the
  arguments of the \<open>widthOfTextAtSize\<close> calls of \<open>segments.forEach\<close>, in drawRichText
  and in the bullet branch. Which words are measured does not depend on any width.
\<close>

definition measured_texts :: "font \<Rightarrow> string \<Rightarrow> (font \<times> string) list" where
  "measured_texts defaultFont txt =
     concat (map (\<lambda>sg.
       (let isB = (startsWith sg ''**'' \<and> endsWith sg ''**'');
            cleanText = (if isB then slice sg 2 (- 2) else sg);
            fnt = (if isB then HelveticaBold else defaultFont)
        in map (\<lambda>w. (fnt, w)) (split_ws [] cleanText))) (segments txt))"

text \<open>The measurements one line of the content asks for, at the size of its kind.\<close>

definition line_measurements :: "string \<Rightarrow> (font \<times> string \<times> real) list" where
  "line_measurements raw =
     (let line = trim raw in
      if line = [] then []
      else if startsWith line ''# '' then
        map (\<lambda>(f, w). (f, w, 22)) (measured_texts HelveticaBold (remove_first ''# '' line))
      else if startsWith line ''## '' then
        map (\<lambda>(f, w). (f, w, 12)) (measured_texts HelveticaBold (remove_first ''## '' line))
      else if startsWith line ''### '' then
        map (\<lambda>(f, w). (f, w, 11)) (measured_texts HelveticaBold (remove_first ''### '' line))
      else if startsWith line ''- '' \<or> startsWith line ''* '' then
        map (\<lambda>(f, w). (f, w, 10)) (measured_texts Helvetica (substring line 2))
      else map (\<lambda>(f, w). (f, w, 10)) (measured_texts Helvetica line))"

text \<open>
  The body of the \<open>try\<close> block. An exception leaves nothing of the pass behind, the
  document is not saved and the catch clause only sets its message; so the block is
  \<open>None\<close> when one of the words it measures cannot be measured. drawText is given
  the bullet glyph and words that have been measured in the same font.
\<close>

definition export_pass :: "metric \<Rightarrow> string \<Rightarrow> layout option" where
  "export_pass m txt =
     (if list_all (\<lambda>raw. list_all (\<lambda>(f, w, z). m f w z \<noteq> None) (line_measurements raw))
           (split_nl [] txt)
      then Some (layout_content (width_of m) txt)
      else None)"

text \<open>
  handleDownloadPDF: the new state and the document handed to \<open>pdfDoc.save\<close>. It
  returns before \<open>PDFDocument.create\<close> on blank content; otherwise the \<open>finally\<close>
  clause resets the downloading flag, after the document is saved or after the catch
  clause has set its message.
\<close>

definition handleDownloadPDF :: "metric \<Rightarrow> app_state \<Rightarrow> app_state \<times> layout option" where
  "handleDownloadPDF m st =
     (if trim (contentToExport st) = [] then (st, None)
      else (case export_pass m (contentToExport st) of
              Some doc \<Rightarrow> (st\<lparr>downloading := False\<rparr>, Some doc)
            | None \<Rightarrow>
                (st\<lparr>error := Some ''PDF Export failed. Check console for details.'',
                    downloading := False\<rparr>, None)))"

section \<open>Sample inputs\<close>

text \<open>A font metric for the examples: every character is half an em wide.\<close>

definition half_em :: measure where
  "half_em f s z = z * real (length s) / 2"

text \<open>
  The same widths as a metric that throws on the characters the standard encoding
  lacks: the control characters below U+0020 and from U+007F to U+009F.
\<close>

definition half_em_metric :: metric where
  "half_em_metric f s z =
     (if list_all (\<lambda>c. ((32::nat) \<le> of_char c \<and> of_char c \<le> (126::nat)) \<or> (160::nat) \<le> of_char c) s
      then Some (half_em f s z) else None)"

definition blank_state :: app_state where
  "blank_state =
     \<lparr>step = 1, loading = False, downloading = False, error = None, inputContent = [],
      targetTitle = [], seniority = MID, context_text = [], result = None,
      jobDescription = []\<rparr>"

definition blank_state_raster :: app_state_raster where
  "blank_state_raster =
     \<lparr>step = 1, loading = False, downloading = False, error = None, inputContent = [],
      targetTitle = [], seniority = MID, context_text = [], result = None,
      fileParsing = False\<rparr>"

text \<open>
  A stand-in for \<open>JSON.parse\<close> that knows the one text the examples use, the empty
  object, and throws on every other text.
\<close>

definition sample_JSON_parse :: "string \<Rightarrow> string + json" where
  "sample_JSON_parse s = (if s = ''{}'' then Inr (JObject []) else Inl ''Unexpected token'')"

text \<open>Two replies of the generation service: the text \<open>{}\<close>, and no text at all.\<close>

definition empty_object_reply :: "ResumeData \<Rightarrow> api_response" where
  "empty_object_reply d = Response (Some ''{}'')"

definition no_text_reply :: "ResumeData \<Rightarrow> api_response" where
  "no_text_reply d = Response None"

text \<open>A generation call that throws.\<close>

definition failing_call :: "ResumeData \<Rightarrow> api_response" where
  "failing_call d = CallFails ''503''"

definition sample_request :: ResumeData where
  "sample_request =
     \<lparr>content = ''# Jane Doe'', rd_targetTitle = ''Engineer'', rd_seniority = MID,
      rd_jobDescription = None, additionalContext = None\<rparr>"

text \<open>An optimizeResume whose promise rejects, with the message of geminiService.ts.\<close>

definition failing_service :: "ResumeData \<Rightarrow> string + OptimizationResult" where
  "failing_service d = Inl ''Failed to optimize resume. Please check your input and try again.''"

definition draft_state :: app_state where
  "draft_state = blank_state\<lparr>inputContent := ''# Jane Doe'', targetTitle := ''Engineer''\<rparr>"

definition draft_state_raster :: app_state_raster where
  "draft_state_raster =
     blank_state_raster\<lparr>inputContent := ''# Jane Doe'', targetTitle := ''Engineer''\<rparr>"

text \<open>
  Decoders for the examples: no PDF or DOCX can be read, and bytes below 128 decode
  to the characters with those codes, as UTF-8 does.
\<close>

definition sample_decoders :: decoders where
  "sample_decoders =
     \<lparr>getDocument = (\<lambda>b. Inl ''Invalid PDF structure.''),
      extractRawText = (\<lambda>b. Inl ''Could not find the document body.''),
      decode = map char_of\<rparr>"

text \<open>A file \<open>data.csv\<close> holding the three bytes of \<open>a,b\<close>.\<close>

definition csv_upload :: upload where
  "csv_upload = \<lparr>file_name = ''data.csv'', file_data = [97, 44, 98]\<rparr>"

section \<open>Notions used to state the layout properties\<close>

text \<open>
  A word counts for the overflow test when \<open>word.trim() !== ''\<close>; such a word is
  called visible. A line fits when its width, accumulated from zero word by word as
  the code does and taken up to and including any visible word that is not the first
  entry of the line, does not exceed the maximum width; it fits as a whole when
  this holds for a visible first entry too.
\<close>

definition visible :: "'w seg \<Rightarrow> bool" where
  "visible s \<longleftrightarrow> trim (seg_text s) \<noteq> []"

definition fits :: "'w::{plus,zero,ord} \<Rightarrow> 'w seg list \<Rightarrow> bool" where
  "fits maxWidth l \<longleftrightarrow>
     (\<forall>n \<in> {1..length l}. visible (l ! (n - 1)) \<longrightarrow>
        n = 1 \<or> \<not> maxWidth < fullLineWidth (take n l))"

definition fits_whole :: "'w::{plus,zero,ord} \<Rightarrow> 'w seg list \<Rightarrow> bool" where
  "fits_whole maxWidth l \<longleftrightarrow>
     (\<forall>n \<in> {1..length l}. visible (l ! (n - 1)) \<longrightarrow> \<not> maxWidth < fullLineWidth (take n l))"

text \<open>
  Every break is forced by a visible word: each line after the first starts with a
  visible word, and that word did not fit at the end of the line before it.
\<close>

fun breaks_forced :: "'w::{plus,zero,ord} \<Rightarrow> 'w seg list list \<Rightarrow> bool" where
  "breaks_forced maxWidth (l # l' # ls) \<longleftrightarrow>
     l' \<noteq> [] \<and> visible (hd l') \<and> maxWidth < fullLineWidth l + seg_width (hd l')
     \<and> breaks_forced maxWidth (l' # ls)"
| "breaks_forced maxWidth ls \<longleftrightarrow> True"

text \<open>add_word as a function of the measured word.\<close>

definition push_seg ::
  "'w::{plus,zero,ord} \<Rightarrow> 'w seg list list \<times> 'w \<Rightarrow> 'w seg \<Rightarrow> 'w seg list list \<times> 'w" where
  "push_seg maxWidth st s =
     (let st1 = (if snd st + seg_width s > maxWidth \<and> visible s then (fst st @ [[]], 0) else st)
      in (butlast (fst st1) @ [last (fst st1) @ [s]], snd st1 + seg_width s))"

text \<open>
  The measured words of a text in reading order: each segment of the text, bold or
  not as add_segment decides, cut at white space and measured in its font.
\<close>

definition segment_words ::
  "(font \<Rightarrow> string \<Rightarrow> real \<Rightarrow> 'w) \<Rightarrow> real \<Rightarrow> font \<Rightarrow> string \<Rightarrow> 'w seg list" where
  "segment_words wd sz defaultFont sg =
     (let isB = (startsWith sg ''**'' \<and> endsWith sg ''**'');
          cleanText = (if isB then slice sg 2 (- 2) else sg);
          fnt = (if isB then HelveticaBold else defaultFont)
      in map (\<lambda>w. \<lparr>seg_text = w, seg_isBold = isB, seg_width = wd fnt w sz\<rparr>)
           (split_ws [] cleanText))"

definition measured_words ::
  "(font \<Rightarrow> string \<Rightarrow> real \<Rightarrow> 'w) \<Rightarrow> real \<Rightarrow> font \<Rightarrow> string \<Rightarrow> 'w seg list" where
  "measured_words wd sz defaultFont txt =
     concat (map (segment_words wd sz defaultFont) (segments txt))"

text \<open>
  Placement of the wrapped lines of a bullet: the glyph, every line but the last
  through flush_line, the last line drawn and followed by the larger step.
\<close>

definition to_line_word :: "'w seg \<Rightarrow> line_word" where
  "to_line_word s =
     \<lparr>lw_text = seg_text s, lw_font = (if seg_isBold s then HelveticaBold else Helvetica)\<rparr>"

definition place_bullet_lines :: "measure \<Rightarrow> layout \<Rightarrow> real seg list list \<Rightarrow> layout" where
  "place_bullet_lines wd L lines =
     (let L1 = drawText L bullet_glyph margin (currentY L) 12 Helvetica (rgb 0 0 0);
          L2 = foldl (flush_line wd 10) L1 (map (map to_line_word) (butlast lines));
          L3 = draw_words wd 10 L2 (map to_line_word (last lines))
      in L3\<lparr>currentY := currentY L3 - 10 * 1.7\<rparr>)"

text \<open>The invariant of the wrap loop on \<open>(lines, currentLineWidth)\<close>.\<close>

definition wrap_inv :: "'w::{plus,zero,ord} \<Rightarrow> 'w seg list list \<times> 'w \<Rightarrow> bool" where
  "wrap_inv maxWidth st \<longleftrightarrow>
     fst st \<noteq> [] \<and> snd st = fullLineWidth (last (fst st))
     \<and> list_all (fits maxWidth) (fst st) \<and> fits_whole maxWidth (hd (fst st))
     \<and> breaks_forced maxWidth (fst st)"

text \<open>
  The state of the bullet loop that corresponds to a state of the wrap loop: the last
  line is the one being collected, the lines before it have been flushed.
\<close>

definition bullet_state ::
  "measure \<Rightarrow> real \<Rightarrow> layout \<Rightarrow> real seg list list \<times> real
     \<Rightarrow> (line_word list \<times> real) \<times> layout" where
  "bullet_state wd sz L1 st =
     ((map to_line_word (last (fst st)), snd st),
      foldl (flush_line wd sz) L1 (map (map to_line_word) (butlast (fst st))))"

text \<open>The runs one line adds, from the x of its first word.\<close>

fun line_runs ::
  "real \<Rightarrow> font \<Rightarrow> color \<Rightarrow> nat \<Rightarrow> real \<Rightarrow> real \<Rightarrow> real seg list \<Rightarrow> text_run list" where
  "line_runs sz defaultFont col pg y x [] = []"
| "line_runs sz defaultFont col pg y x (s # l) =
     \<lparr>run_page = pg, run_text = seg_text s, run_x = x, run_y = y, run_size = sz,
      run_font = (if seg_isBold s then HelveticaBold else defaultFont), run_color = col\<rparr>
     # line_runs sz defaultFont col pg y (x + seg_width s) l"

fun word_runs :: "measure \<Rightarrow> real \<Rightarrow> nat \<Rightarrow> real \<Rightarrow> real \<Rightarrow> line_word list \<Rightarrow> text_run list" where
  "word_runs wd sz pg y x [] = []"
| "word_runs wd sz pg y x (lw # ws) =
     \<lparr>run_page = pg, run_text = lw_text lw, run_x = x, run_y = y, run_size = sz,
      run_font = lw_font lw, run_color = rgb 0 0 0\<rparr>
     # word_runs wd sz pg y (x + wd (lw_font lw) (lw_text lw) sz) ws"

text \<open>Sample contents and lines for the layout examples.\<close>

definition long_line :: string where
  "long_line = replicate 99 (CHR ''a'') @ '' b''"

definition title_low_on_page :: string where
  "title_low_on_page = replicate 89 (CHR 0x0A) @ ''# T''"

definition bullet_list :: string where
  "bullet_list = concat (replicate 47 (''- x'' @ [CHR 0x0A])) @ ''- x''"

definition indented_title :: string where
  "indented_title = ''  # Jane Doe'' @ [CHR 0x0A] @ ''jane@x.com''"

definition plain_title :: string where
  "plain_title = ''# Jane Doe'' @ [CHR 0x0A] @ ''jane@x.com''"

definition bare_marker :: string where
  "bare_marker = ''# '' @ [CHR 0x0A] @ ''foo''"

definition padded_title :: string where
  "padded_title = ''#  Supercalifragilisticexpialidocious-Name-Of-Fifty''"

text \<open>The options of a title line, and two cursors near the bottom of the first page.\<close>

definition title_options :: options where
  "title_options =
     \<lparr>opt_size = Some 22, opt_defaultFont = Some HelveticaBold, opt_color = None,
      opt_align = Some AlignCenter\<rparr>"

definition low_page :: layout where
  "low_page = \<lparr>page = 0, currentY = 60, runs = [], rules = []\<rparr>"

definition mid_page :: layout where
  "mid_page = \<lparr>page = 0, currentY = 80, runs = [], rules = []\<rparr>"

text \<open>Measured words under \<open>half_em\<close>: three at size 22 and one at size 10.\<close>

definition empty_word :: "real seg" where
  "empty_word = \<lparr>seg_text = [], seg_isBold = False, seg_width = 0\<rparr>"

definition space_word :: "real seg" where
  "space_word = \<lparr>seg_text = '' '', seg_isBold = False, seg_width = 11\<rparr>"

definition wide_word :: "real seg" where
  "wide_word =
     \<lparr>seg_text = ''Supercalifragilisticexpialidocious-Name-Of-Fifty'', seg_isBold = False,
      seg_width = 528\<rparr>"

definition short_word :: "real seg" where
  "short_word = \<lparr>seg_text = ''x'', seg_isBold = False, seg_width = 5\<rparr>"

section \<open>Export of blank content\<close>

lemma dropWhile_list_all: "list_all P xs \<Longrightarrow> dropWhile P xs = []"
  by (induction xs) auto

lemma trim_blank: "list_all is_space s \<Longrightarrow> trim s = []"
  by (simp add: trim_def dropWhile_list_all)

text \<open>
  C8. When the content to export is empty or consists of white space only (the
  no-break space included), handleDownloadPDF returns at once, whatever the font
  metric: the state is untouched and no document exists, so no page has been added
  and no text placed.
\<close>

theorem export_blank_content_returns_early:
  "list_all is_space (contentToExport st) \<Longrightarrow> handleDownloadPDF m st = (st, None)"
  by (simp add: handleDownloadPDF_def trim_blank)

theorem export_blank_content_witness:
  "list_all is_space
     (contentToExport (blank_state\<lparr>inputContent := [CHR '' '', CHR 0x0A, CHR 0xA0, CHR 0x09]\<rparr>))
   \<and> handleDownloadPDF half_em_metric
         (blank_state\<lparr>inputContent := [CHR '' '', CHR 0x0A, CHR 0xA0, CHR 0x09]\<rparr>)
       = (blank_state\<lparr>inputContent := [CHR '' '', CHR 0x0A, CHR 0xA0, CHR 0x09]\<rparr>, None)"
proof -
  have h: "list_all is_space
     (contentToExport (blank_state\<lparr>inputContent := [CHR '' '', CHR 0x0A, CHR 0xA0, CHR 0x09]\<rparr>))"
    by (simp add: contentToExport_def blank_state_def is_space_def)
  show ?thesis
    using h export_blank_content_returns_early [OF h, of half_em_metric] by simp
qed

text \<open>
  The other two ways out of the handler, at two contents of one body line: the
  document is laid out and saved, or a word cannot be measured (here it holds a
  tab) and only the message of the catch clause is left.
\<close>

lemma export_saves_document:
  "handleDownloadPDF half_em_metric (blank_state\<lparr>inputContent := ''a b''\<rparr>)
     = (blank_state\<lparr>inputContent := ''a b''\<rparr>,
        Some (layout_content half_em ''a b''))"
  by code_simp

lemma export_fails_on_unmeasurable_word:
  "handleDownloadPDF half_em_metric (blank_state\<lparr>inputContent := [CHR ''a'', CHR 0x09, CHR ''b'']\<rparr>)
     = (blank_state\<lparr>inputContent := [CHR ''a'', CHR 0x09, CHR ''b''],
                    error := Some ''PDF Export failed. Check console for details.''\<rparr>,
        None)"
  by code_simp

text \<open>The words the pass measures are the words drawRichText wraps and places.\<close>

lemma measured_words_texts:
  "map (\<lambda>s. (if seg_isBold s then HelveticaBold else defaultFont, seg_text s))
       (measured_words wd sz defaultFont txt)
     = measured_texts defaultFont txt"
  by (simp add: measured_words_def measured_texts_def segment_words_def map_concat Let_def
      comp_def cong: map_cong)

section \<open>The optimisation service and handleOptimize\<close>

text \<open>
  C4, as stated, fails. A response whose text is \<open>{}\<close> is valid JSON with none of the
  required fields; both copies of optimizeResume resolve to it, the empty object.
\<close>

theorem optimizeResume_missing_fields_counterexample:
  "optimizeResume sample_JSON_parse empty_object_reply sample_request = Inr (JObject [])
   \<and> optimizeResume_raster sample_JSON_parse empty_object_reply sample_request = Inr (JObject [])
   \<and> has_required_fields (JObject []) = False"
  by (simp add: optimizeResume_def optimizeResume_raster_def sample_JSON_parse_def
      empty_object_reply_def has_required_fields_def required_fields_def)

text \<open>
  C4, amended. When the generation call throws, optimizeResume rejects. When it
  returns a response with a text that is not empty, optimizeResume resolves exactly
  if the text parses as JSON, and then to the parsed value as it is, whatever fields
  it has; a malformed text makes it reject. Both copies of the service agree on
  this. What happens to a response without text is left open here.
\<close>

theorem optimizeResume_resolves_iff_parses:
  "(generate data = Response (Some t) \<longrightarrow> t \<noteq> [] \<longrightarrow>
      (optimizeResume JSON_parse generate data = Inr j \<longleftrightarrow> JSON_parse t = Inr j)
      \<and> (optimizeResume_raster JSON_parse generate data = Inr j \<longleftrightarrow> JSON_parse t = Inr j)
      \<and> (isl (optimizeResume JSON_parse generate data) \<longleftrightarrow> isl (JSON_parse t))
      \<and> (isl (optimizeResume_raster JSON_parse generate data) \<longleftrightarrow> isl (JSON_parse t)))
   \<and> (generate' data' = CallFails e \<longrightarrow>
      isl (optimizeResume JSON_parse generate' data')
      \<and> isl (optimizeResume_raster JSON_parse generate' data'))"
  by (auto simp: optimizeResume_def optimizeResume_raster_def split: sum.splits)

theorem optimizeResume_resolves_witness:
  "empty_object_reply sample_request = Response (Some ''{}'')
   \<and> ''{}'' \<noteq> []
   \<and> sample_JSON_parse ''{}'' = Inr (JObject [])
   \<and> optimizeResume sample_JSON_parse empty_object_reply sample_request = Inr (JObject [])
   \<and> optimizeResume_raster sample_JSON_parse empty_object_reply sample_request = Inr (JObject [])
   \<and> failing_call sample_request = CallFails ''503''
   \<and> isl (optimizeResume sample_JSON_parse failing_call sample_request)
   \<and> isl (optimizeResume_raster sample_JSON_parse failing_call sample_request)"
proof -
  have h1: "empty_object_reply sample_request = Response (Some ''{}'')"
    by (simp add: empty_object_reply_def)
  have h2: "''{}'' \<noteq> []"
    by simp
  have h3: "sample_JSON_parse ''{}'' = Inr (JObject [])"
    by (simp add: sample_JSON_parse_def)
  have h4: "failing_call sample_request = CallFails ''503''"
    by (simp add: failing_call_def)
  show ?thesis
    using optimizeResume_resolves_iff_parses
      [of empty_object_reply sample_request "''{}''" sample_JSON_parse "JObject []"
          failing_call sample_request "''503''"]
      h1 h2 h3 h4
    by blast
qed

text \<open>
  On a response without text the two copies differ: geminiService.ts reads it as the
  text \<open>{}\<close>, the other copy rejects it.
\<close>

lemma no_text_reply_copies_differ:
  "optimizeResume sample_JSON_parse no_text_reply sample_request = Inr (JObject [])
   \<and> optimizeResume_raster sample_JSON_parse no_text_reply sample_request
       = Inl (wrap_message ''No response text received from AI.'')"
  by (simp add: optimizeResume_def optimizeResume_raster_def sample_JSON_parse_def
      no_text_reply_def)

text \<open>
  C5. When the optimizeResume call rejects, handleOptimize (in both copies of App)
  changes nothing but the error message and the loading flag: inputContent, result
  and step are those of the state before, and exactly one message is set.
\<close>

theorem failed_optimization_keeps_editor:
  "(optimize (optimize_request st) = Inl m \<longrightarrow>
      inputContent (handleOptimize optimize st) = inputContent st
      \<and> result (handleOptimize optimize st) = result st
      \<and> step (handleOptimize optimize st) = step st
      \<and> handleOptimize optimize st =
        (if trim (inputContent st) = [] \<or> trim (targetTitle st) = []
         then st\<lparr>error := Some ''Resume text and target job title are required.''\<rparr>
         else st\<lparr>loading := False,
                 error := Some (if m = [] then ''Optimization failed. Please try again.'' else m)\<rparr>))
   \<and> (optimize' (optimize_request_raster st') = Inl m' \<longrightarrow>
      inputContent (handleOptimize_raster optimize' st') = inputContent st'
      \<and> result (handleOptimize_raster optimize' st') = result st'
      \<and> step (handleOptimize_raster optimize' st') = step st'
      \<and> handleOptimize_raster optimize' st' =
        (if trim (inputContent st') = []
         then st'\<lparr>error := Some ''Please provide your current resume content.''\<rparr>
         else if trim (targetTitle st') = []
         then st'\<lparr>error := Some ''Please specify a target job title.''\<rparr>
         else st'\<lparr>loading := False,
                  error := Some (if m' = [] then ''An unexpected error occurred.'' else m')\<rparr>))"
  by (simp add: handleOptimize_def handleOptimize_raster_def)

lemma trim_draft: "trim ''# Jane Doe'' = ''# Jane Doe''" "trim ''Engineer'' = ''Engineer''"
  by (simp_all add: trim_def is_space_def)

theorem failed_optimization_witness:
  "failing_service (optimize_request draft_state)
     = Inl ''Failed to optimize resume. Please check your input and try again.''
   \<and> inputContent (handleOptimize failing_service draft_state) = ''# Jane Doe''
   \<and> result (handleOptimize failing_service draft_state) = None
   \<and> step (handleOptimize failing_service draft_state) = 1
   \<and> handleOptimize failing_service draft_state =
       draft_state\<lparr>error :=
         Some ''Failed to optimize resume. Please check your input and try again.''\<rparr>
   \<and> failing_service (optimize_request_raster draft_state_raster)
     = Inl ''Failed to optimize resume. Please check your input and try again.''
   \<and> handleOptimize_raster failing_service draft_state_raster =
       draft_state_raster\<lparr>error :=
         Some ''Failed to optimize resume. Please check your input and try again.''\<rparr>"
  using failed_optimization_keeps_editor [of failing_service draft_state
      "''Failed to optimize resume. Please check your input and try again.''"
      failing_service draft_state_raster
      "''Failed to optimize resume. Please check your input and try again.''"]
  by (simp add: failing_service_def draft_state_def draft_state_raster_def trim_draft
      blank_state_def blank_state_raster_def)

section \<open>File upload\<close>

text \<open>
  In App.tsx every name that ends in neither \<open>.pdf\<close> nor \<open>.docx\<close> takes the text
  branch, whatever its extension.
\<close>

lemma upload_other_extension_decoded:
  "\<not> endsWith (toLowerCase (file_name file)) ''.pdf'' \<Longrightarrow>
   \<not> endsWith (toLowerCase (file_name file)) ''.docx'' \<Longrightarrow>
   handleFileUpload lib (Some file) st
     = st\<lparr>error := None, inputContent := decode lib (file_data file)\<rparr>"
  by (simp add: handleFileUpload_def)

text \<open>
  C9 at the file \<open>data.csv\<close>: handleFileUpload of App.tsx decodes it and puts the
  text into the editor with no error, where the other copy of the handler rejects it
  as an unsupported file type.
\<close>

theorem upload_unsupported_extension_accepted:
  "handleFileUpload sample_decoders (Some csv_upload) blank_state
     = blank_state\<lparr>inputContent := ''a,b''\<rparr>
   \<and> handleFileUpload_raster sample_decoders (Some csv_upload) blank_state_raster
     = blank_state_raster\<lparr>error :=
         Some ''Unsupported file type. Please upload PDF, DOCX, TXT, or MD.''\<rparr>"
  by code_simp

section \<open>The word wrap\<close>

lemma add_word_push:
  "add_word wd sz mw fnt isB st w
     = push_seg mw st \<lparr>seg_text = w, seg_isBold = isB, seg_width = wd fnt w sz\<rparr>"
  by (simp add: add_word_def push_seg_def visible_def Let_def)

lemma foldl_cong_fun: "(\<And>a x. f a x = g a x) \<Longrightarrow> foldl f a xs = foldl g a xs"
  by (induction xs arbitrary: a) simp_all

lemma foldl_add_word:
  "foldl (add_word wd sz mw fnt isB) st ws
     = foldl (push_seg mw) st
         (map (\<lambda>w. \<lparr>seg_text = w, seg_isBold = isB, seg_width = wd fnt w sz\<rparr>) ws)"
  by (induction ws arbitrary: st) (simp_all add: add_word_push)

lemma add_segment_push:
  "add_segment wd sz mw f st sg = foldl (push_seg mw) st (segment_words wd sz f sg)"
  by (simp add: add_segment_def segment_words_def Let_def foldl_add_word)

lemma foldl_concat_list: "foldl f a (concat xss) = foldl (foldl f) a xss"
  by (induction xss arbitrary: a) simp_all

lemma wrap_lines_push:
  "wrap_lines wd sz mw f txt = fst (foldl (push_seg mw) ([[]], 0) (measured_words wd sz f txt))"
proof -
  have "foldl (add_segment wd sz mw f) ([[]], 0) (segments txt)
      = foldl (\<lambda>st sg. foldl (push_seg mw) st (segment_words wd sz f sg)) ([[]], 0) (segments txt)"
    by (rule foldl_cong_fun) (rule add_segment_push)
  also have "\<dots> = foldl (foldl (push_seg mw)) ([[]], 0) (map (segment_words wd sz f) (segments txt))"
    by (simp add: foldl_map)
  also have "\<dots> = foldl (push_seg mw) ([[]], 0) (measured_words wd sz f txt)"
    by (simp add: measured_words_def foldl_concat_list)
  finally show ?thesis by (simp add: wrap_lines_def)
qed

lemma fullLineWidth_snoc: "fullLineWidth (l @ [s]) = fullLineWidth l + seg_width s"
  by (simp add: fullLineWidth_def)

lemma fits_whole_imp_fits: "fits_whole mw l \<Longrightarrow> fits mw l"
  by (simp add: fits_whole_def fits_def)

lemma fits_whole_Nil: "fits_whole mw []"
  by (simp add: fits_whole_def)

lemma fits_single: "fits mw [s]"
  by (simp add: fits_def)

lemma fits_snoc:
  assumes "fits mw l" and "visible s \<Longrightarrow> l = [] \<or> \<not> mw < fullLineWidth l + seg_width s"
  shows "fits mw (l @ [s])"
  unfolding fits_def
proof (intro ballI impI)
  fix n assume n: "n \<in> {1..length (l @ [s])}" and v: "visible ((l @ [s]) ! (n - 1))"
  show "n = 1 \<or> \<not> mw < fullLineWidth (take n (l @ [s]))"
  proof (cases "n \<le> length l")
    case True
    with n have "(l @ [s]) ! (n - 1) = l ! (n - 1)" "take n (l @ [s]) = take n l"
      by (auto simp: nth_append)
    with assms(1) n v True show ?thesis by (auto simp: fits_def)
  next
    case False
    with n have n_eq: "n = Suc (length l)" by auto
    then have "visible s" using v by simp
    with assms(2) have "l = [] \<or> \<not> mw < fullLineWidth l + seg_width s" by blast
    then show ?thesis using n_eq by (auto simp: fullLineWidth_snoc)
  qed
qed

lemma fits_whole_snoc:
  assumes "fits_whole mw l" and "visible s \<Longrightarrow> \<not> mw < fullLineWidth l + seg_width s"
  shows "fits_whole mw (l @ [s])"
  unfolding fits_whole_def
proof (intro ballI impI)
  fix n assume n: "n \<in> {1..length (l @ [s])}" and v: "visible ((l @ [s]) ! (n - 1))"
  show "\<not> mw < fullLineWidth (take n (l @ [s]))"
  proof (cases "n \<le> length l")
    case True
    with n have "(l @ [s]) ! (n - 1) = l ! (n - 1)" "take n (l @ [s]) = take n l"
      by (auto simp: nth_append)
    with assms(1) n v True show ?thesis by (auto simp: fits_whole_def)
  next
    case False
    with n have n_eq: "n = Suc (length l)" by auto
    then have "visible s" using v by simp
    with assms(2) have "\<not> mw < fullLineWidth l + seg_width s" by blast
    then show ?thesis using n_eq by (simp add: fullLineWidth_snoc)
  qed
qed

lemma breaks_forced_nonempty: "breaks_forced mw (ls @ [l]) \<Longrightarrow> ls \<noteq> [] \<Longrightarrow> l \<noteq> []"
proof (induction ls)
  case Nil
  then show ?case by simp
next
  case (Cons a ls)
  then show ?case by (cases ls) simp_all
qed

lemma breaks_forced_new_line:
  "breaks_forced mw (ls @ [l]) \<Longrightarrow> visible s \<Longrightarrow> mw < fullLineWidth l + seg_width s \<Longrightarrow>
   breaks_forced mw (ls @ [l, [s]])"
proof (induction ls)
  case Nil
  then show ?case by simp
next
  case (Cons a ls)
  then show ?case by (cases ls) simp_all
qed

lemma breaks_forced_extend:
  "breaks_forced mw (ls @ [l]) \<Longrightarrow> ls = [] \<or> l \<noteq> [] \<Longrightarrow> breaks_forced mw (ls @ [l @ [s]])"
proof (induction ls)
  case Nil
  then show ?case by simp
next
  case (Cons a ls)
  then show ?case by (cases ls) simp_all
qed

lemma push_seg_snoc:
  "push_seg mw (ls @ [l], c) s =
     (if mw < c + seg_width s \<and> visible s then (ls @ [l, [s]], 0 + seg_width s)
      else (ls @ [l @ [s]], c + seg_width s))"
  by (simp add: push_seg_def butlast_append)

lemma push_seg_inv: "wrap_inv mw st \<Longrightarrow> wrap_inv mw (push_seg mw st s)"
proof -
  assume inv: "wrap_inv mw st"
  obtain lines cur where st: "st = (lines, cur)" by (cases st)
  from inv st have "lines \<noteq> []" by (simp add: wrap_inv_def)
  then obtain ls l where lines: "lines = ls @ [l]" by (cases lines rule: rev_cases) simp_all
  from inv st lines have cur: "cur = fullLineWidth l"
    and ok: "list_all (fits mw) ls" "fits mw l"
    and whole: "fits_whole mw (hd (ls @ [l]))"
    and forced: "breaks_forced mw (ls @ [l])"
    by (simp_all add: wrap_inv_def)
  show ?thesis
  proof (cases "mw < cur + seg_width s \<and> visible s")
    case True
    then have eq: "push_seg mw st s = (ls @ [l, [s]], 0 + seg_width s)"
      by (simp add: st lines push_seg_snoc)
    have "hd (ls @ [l, [s]]) = hd (ls @ [l])"
      by (cases ls) simp_all
    moreover have "breaks_forced mw (ls @ [l, [s]])"
      using forced True cur by (intro breaks_forced_new_line) simp_all
    ultimately show ?thesis
      using ok whole by (simp add: eq wrap_inv_def fullLineWidth_def fits_single)
  next
    case False
    then have eq: "push_seg mw st s = (ls @ [l @ [s]], cur + seg_width s)"
      by (simp add: st lines push_seg_snoc)
    from False cur have step: "visible s \<Longrightarrow> \<not> mw < fullLineWidth l + seg_width s"
      by simp
    have fit: "fits mw (l @ [s])"
      using ok(2) step by (intro fits_snoc) simp_all
    have "fits_whole mw (hd (ls @ [l @ [s]]))"
    proof (cases ls)
      case Nil
      with whole step show ?thesis by (simp add: fits_whole_snoc)
    next
      case (Cons a ls')
      with whole show ?thesis by simp
    qed
    moreover have "breaks_forced mw (ls @ [l @ [s]])"
      using forced breaks_forced_nonempty [OF forced] by (intro breaks_forced_extend) auto
    ultimately show ?thesis
      using ok(1) fit by (simp add: eq wrap_inv_def cur fullLineWidth_snoc)
  qed
qed

lemma foldl_push_inv: "wrap_inv mw st \<Longrightarrow> wrap_inv mw (foldl (push_seg mw) st ss)"
  by (induction ss arbitrary: st) (simp_all add: push_seg_inv)

lemma wrap_inv_init: "wrap_inv mw ([[]], 0)"
  by (simp add: wrap_inv_def fullLineWidth_def fits_def fits_whole_Nil)

lemma wrap_lines_inv:
  "list_all (fits mw) (wrap_lines wd sz mw f txt)"
  "fits_whole mw (hd (wrap_lines wd sz mw f txt))"
  "breaks_forced mw (wrap_lines wd sz mw f txt)"
  using foldl_push_inv [OF wrap_inv_init, of mw "measured_words wd sz f txt"]
  by (simp_all add: wrap_lines_push wrap_inv_def)

lemma push_seg_concat: "fst st \<noteq> [] \<Longrightarrow> concat (fst (push_seg mw st s)) = concat (fst st) @ [s] \<and> fst (push_seg mw st s) \<noteq> []"
proof -
  assume ne: "fst st \<noteq> []"
  have "concat (butlast (fst st) @ [last (fst st) @ [s]])
      = concat (butlast (fst st) @ [last (fst st)]) @ [s]"
    by simp
  also have "\<dots> = concat (fst st) @ [s]"
    by (simp only: append_butlast_last_id [OF ne])
  finally show ?thesis using ne
    by (simp add: push_seg_def Let_def)
qed

lemma foldl_push_concat:
  "fst st \<noteq> [] \<Longrightarrow> concat (fst (foldl (push_seg mw) st ss)) = concat (fst st) @ ss"
  by (induction ss arbitrary: st) (simp_all add: push_seg_concat)

lemma wrap_lines_concat: "concat (wrap_lines wd sz mw f txt) = measured_words wd sz f txt"
  by (simp add: wrap_lines_push foldl_push_concat)

section \<open>The bullet branch wraps like drawRichText\<close>

lemma bullet_word_push:
  assumes ne: "fst st \<noteq> []"
  shows "bullet_word wd sz mw (if isB then HelveticaBold else Helvetica) (bullet_state wd sz L1 st) w
       = bullet_state wd sz L1
           (push_seg mw st \<lparr>seg_text = w, seg_isBold = isB,
              seg_width = wd (if isB then HelveticaBold else Helvetica) w sz\<rparr>)"
proof -
  obtain lines cur where st: "st = (lines, cur)" by (cases st)
  from ne st have split: "butlast lines @ [last lines] = lines" by simp
  have flush: "foldl (flush_line wd sz) L1 (map (map to_line_word) lines)
      = flush_line wd sz (foldl (flush_line wd sz) L1 (map (map to_line_word) (butlast lines)))
          (map to_line_word (last lines))"
    by (subst (1) split [symmetric]) (simp del: append_butlast_last_id)
  show ?thesis
    by (simp add: bullet_word_def bullet_state_def push_seg_def st Let_def visible_def
        to_line_word_def flush)
qed

lemma push_seg_nonempty: "fst (push_seg mw st s) \<noteq> []"
  by (simp add: push_seg_def Let_def)

lemma foldl_push_nonempty: "fst st \<noteq> [] \<Longrightarrow> fst (foldl (push_seg mw) st ss) \<noteq> []"
  by (induction ss arbitrary: st) (simp_all add: push_seg_nonempty)

lemma foldl_bullet_word:
  "fst st \<noteq> [] \<Longrightarrow>
   foldl (bullet_word wd sz mw (if isB then HelveticaBold else Helvetica)) (bullet_state wd sz L1 st) ws
     = bullet_state wd sz L1
         (foldl (push_seg mw) st
            (map (\<lambda>w. \<lparr>seg_text = w, seg_isBold = isB,
                        seg_width = wd (if isB then HelveticaBold else Helvetica) w sz\<rparr>) ws))"
  by (induction ws arbitrary: st) (simp_all add: bullet_word_push push_seg_nonempty)

lemma bullet_segment_push:
  "fst st \<noteq> [] \<Longrightarrow>
   bullet_segment wd sz mw (bullet_state wd sz L1 st) sg
     = bullet_state wd sz L1 (foldl (push_seg mw) st (segment_words wd sz Helvetica sg))"
  using foldl_bullet_word [of st wd sz mw "startsWith sg ''**'' \<and> endsWith sg ''**''" L1]
  by (simp add: bullet_segment_def segment_words_def Let_def)

lemma foldl_bullet_segment:
  "fst st \<noteq> [] \<Longrightarrow>
   foldl (bullet_segment wd sz mw) (bullet_state wd sz L1 st) sgs
     = bullet_state wd sz L1
         (foldl (push_seg mw) st (concat (map (segment_words wd sz Helvetica) sgs)))"
  by (induction sgs arbitrary: st) (simp_all add: bullet_segment_push foldl_push_nonempty)

lemma draw_bullet_wrap:
  "draw_bullet wd line L
     = place_bullet_lines wd L
         (wrap_lines wd 10 (width - bulletMargin - margin) Helvetica (substring line 2))"
proof -
  let ?L1 = "drawText L bullet_glyph margin (currentY L) 12 Helvetica (rgb 0 0 0)"
  have init: "(([], 0), ?L1) = bullet_state wd 10 ?L1 ([[]], 0)"
    by (simp add: bullet_state_def)
  have loop: "foldl (bullet_segment wd 10 (width - bulletMargin - margin)) (([], 0), ?L1)
       (segments (substring line 2))
     = bullet_state wd 10 ?L1
         (foldl (push_seg (width - bulletMargin - margin)) ([[]], 0)
            (measured_words wd 10 Helvetica (substring line 2)))"
    unfolding init by (simp add: foldl_bullet_segment measured_words_def)
  show ?thesis
    unfolding draw_bullet_def Let_def loop
    by (simp add: place_bullet_lines_def wrap_lines_push bullet_state_def Let_def)
qed

section \<open>Placement and pagination\<close>

lemma draw_segs_runs:
  "fst (foldl (\<lambda>(La, cursorX) s.
          (drawText La (seg_text s) cursorX (currentY La) sz
             (if seg_isBold s then HelveticaBold else f) col,
           cursorX + seg_width s)) (La, x) l)
     = La\<lparr>runs := runs La @ line_runs sz f col (page La) (currentY La) x l\<rparr>"
  by (induction l arbitrary: La x) (simp_all add: drawText_def)

lemma draw_line_eq:
  "draw_line sz f col al L l =
     (let L1 = (if currentY L < margin + 20 then addPage L else L);
          startX = (if al = AlignCenter then (width - fullLineWidth l) / 2 else margin)
      in L1\<lparr>runs := runs L1 @ line_runs sz f col (page L1) (currentY L1) startX l,
             currentY := currentY L1 - sz * 1.5\<rparr>)"
  by (simp add: draw_line_def Let_def draw_segs_runs)

lemma line_runs_place:
  "list_all (\<lambda>r. run_page r = pg \<and> run_y r = y) (line_runs sz f col pg y x l)"
  by (induction l arbitrary: x) simp_all

lemma line_runs_text: "map run_text (line_runs sz f col pg y x l) = map seg_text l"
  by (induction l arbitrary: x) simp_all

lemma draw_line_currentY:
  "currentY (draw_line sz f col al L l)
     = (if currentY L < margin + 20 then height - margin else currentY L) - sz * 1.5"
  by (simp add: draw_line_eq addPage_def Let_def)

lemma draw_line_page:
  "page (draw_line sz f col al L l) = (if currentY L < margin + 20 then Suc (page L) else page L)"
  by (simp add: draw_line_eq addPage_def Let_def)

lemma draw_line_new_runs:
  "drop (length (runs L)) (runs (draw_line sz f col al L l))
     = line_runs sz f col (if currentY L < margin + 20 then Suc (page L) else page L)
         (if currentY L < margin + 20 then height - margin else currentY L)
         (if al = AlignCenter then (width - fullLineWidth l) / 2 else margin) l"
  by (simp add: draw_line_eq addPage_def Let_def)

lemma draw_words_fold:
  "fst (foldl (\<lambda>(La, cX) lw.
            (drawText La (lw_text lw) cX (currentY La) sz (lw_font lw) (rgb 0 0 0),
             cX + wd (lw_font lw) (lw_text lw) sz)) (La, x) ws)
     = La\<lparr>runs := runs La @ word_runs wd sz (page La) (currentY La) x ws\<rparr>"
  by (induction ws arbitrary: La x) (simp_all add: drawText_def)

lemma draw_words_eq:
  "draw_words wd sz L ws = L\<lparr>runs := runs L @ word_runs wd sz (page L) (currentY L) bulletMargin ws\<rparr>"
  by (simp add: draw_words_def draw_words_fold)

section \<open>C1: what the greedy wrap guarantees\<close>

text \<open>
  C1, as stated, fails: the overflow test skips white space, so a white-space word is
  appended even when it carries the line past the maximum width. Under \<open>half_em\<close> at
  size 10 the line of 99 letters, a space and a letter wraps into two lines; the first
  holds the 99 letters (495) and the space (5), 500 in all against a maximum of 495.28,
  and neither of its words exceeds the maximum alone.
\<close>

theorem trailing_space_overflow_counterexample:
  "wrap_lines half_em 10 (width - margin * 2) Helvetica long_line
     = [[\<lparr>seg_text = replicate 99 (CHR ''a''), seg_isBold = False, seg_width = 495\<rparr>,
         \<lparr>seg_text = '' '', seg_isBold = False, seg_width = 5\<rparr>],
        [\<lparr>seg_text = ''b'', seg_isBold = False, seg_width = 5\<rparr>]]
   \<and> fullLineWidth [\<lparr>seg_text = replicate 99 (CHR ''a''), seg_isBold = False, seg_width = 495\<rparr>,
         \<lparr>seg_text = '' '', seg_isBold = False, seg_width = (5::real)\<rparr>] = 500
   \<and> width - margin * 2 < 500"
  by code_simp

text \<open>
  C1, amended, for widths of any type with an addition, a zero and an order (so for
  the doubles of the source, rounding and all), the width of a line being accumulated
  from zero word by word as the code does.
  Only a visible word triggers the overflow test. A word that is empty or white
  space is appended to the line in progress whatever the width, and the layout is
  not touched, in drawRichText and in the bullet branch (first two conjuncts); so no
  line but the first ever starts with such a word, and every break is forced: the
  visible word that opens a line did not fit at the end of the line before it.
  Every wrapped line fits when it is measured up to and including any visible word
  that is not its first entry, and the first line fits as a whole. A visible word
  that overflows is carried, unsplit, to a fresh line as its first entry, also when
  it exceeds the maximum alone. The words of all lines, in order, are the measured
  words of the text; and the bullet branch places exactly the lines of the same
  wrap, at its own maximum width.
\<close>

theorem only_visible_words_break_lines:
  "(trim word = [] \<longrightarrow>
      add_word wd sz maxWidth fnt isB (lines, cur) word
        = (butlast lines @
             [last lines @ [\<lparr>seg_text = word, seg_isBold = isB, seg_width = wd fnt word sz\<rparr>]],
           cur + wd fnt word sz))
   \<and> (trim w = [] \<longrightarrow>
      bullet_word wd' sz' maxWidth' fnt' ((lineWords, currentW), L) w
        = ((lineWords @ [\<lparr>lw_text = w, lw_font = fnt'\<rparr>], currentW + wd' fnt' w sz'), L))
   \<and> breaks_forced maxWidth (wrap_lines wd sz maxWidth defaultFont txt)
   \<and> list_all (fits maxWidth) (wrap_lines wd sz maxWidth defaultFont txt)
   \<and> fits_whole maxWidth (hd (wrap_lines wd sz maxWidth defaultFont txt))
   \<and> concat (wrap_lines wd sz maxWidth defaultFont txt) = measured_words wd sz defaultFont txt
   \<and> draw_bullet wd' line L'
       = place_bullet_lines wd' L'
           (wrap_lines wd' 10 (width - bulletMargin - margin) Helvetica (substring line 2))"
proof -
  have "trim word = [] \<longrightarrow>
      add_word wd sz maxWidth fnt isB (lines, cur) word
        = (butlast lines @
             [last lines @ [\<lparr>seg_text = word, seg_isBold = isB, seg_width = wd fnt word sz\<rparr>]],
           cur + wd fnt word sz)"
    by (simp add: add_word_def Let_def)
  moreover have "trim w = [] \<longrightarrow>
      bullet_word wd' sz' maxWidth' fnt' ((lineWords, currentW), L) w
        = ((lineWords @ [\<lparr>lw_text = w, lw_font = fnt'\<rparr>], currentW + wd' fnt' w sz'), L)"
    by (simp add: bullet_word_def Let_def)
  ultimately show ?thesis
    using wrap_lines_inv [of maxWidth wd sz defaultFont "txt"]
      wrap_lines_concat [of wd sz maxWidth defaultFont "txt"] draw_bullet_wrap [of wd' line L']
    by blast
qed

theorem only_visible_words_break_lines_witness:
  "trim ''  '' = []
   \<and> add_word half_em 10 30 Helvetica False
        ([[\<lparr>seg_text = ''ab'', seg_isBold = False, seg_width = 10\<rparr>,
           \<lparr>seg_text = '' '', seg_isBold = False, seg_width = 5\<rparr>,
           \<lparr>seg_text = ''cd'', seg_isBold = False, seg_width = 10\<rparr>]], 25) ''  ''
      = ([[\<lparr>seg_text = ''ab'', seg_isBold = False, seg_width = 10\<rparr>,
           \<lparr>seg_text = '' '', seg_isBold = False, seg_width = 5\<rparr>,
           \<lparr>seg_text = ''cd'', seg_isBold = False, seg_width = 10\<rparr>,
           \<lparr>seg_text = ''  '', seg_isBold = False, seg_width = 10\<rparr>]], 35)
   \<and> bullet_word half_em 10 30 Helvetica (([\<lparr>lw_text = ''abcde'', lw_font = Helvetica\<rparr>], 25), first_page) ''  ''
      = (([\<lparr>lw_text = ''abcde'', lw_font = Helvetica\<rparr>, \<lparr>lw_text = ''  '', lw_font = Helvetica\<rparr>], 35),
         first_page)
   \<and> wrap_lines half_em 10 30 Helvetica ''ab cd ef''
     = [[\<lparr>seg_text = ''ab'', seg_isBold = False, seg_width = 10\<rparr>,
         \<lparr>seg_text = '' '', seg_isBold = False, seg_width = 5\<rparr>,
         \<lparr>seg_text = ''cd'', seg_isBold = False, seg_width = 10\<rparr>,
         \<lparr>seg_text = '' '', seg_isBold = False, seg_width = 5\<rparr>],
        [\<lparr>seg_text = ''ef'', seg_isBold = False, seg_width = 10\<rparr>]]
   \<and> visible \<lparr>seg_text = ''cd'', seg_isBold = False, seg_width = (10::real)\<rparr>
   \<and> \<not> 30 < fullLineWidth [\<lparr>seg_text = ''ab'', seg_isBold = False, seg_width = 10\<rparr>,
         \<lparr>seg_text = '' '', seg_isBold = False, seg_width = 5\<rparr>,
         \<lparr>seg_text = ''cd'', seg_isBold = False, seg_width = (10::real)\<rparr>]
   \<and> visible \<lparr>seg_text = ''ef'', seg_isBold = False, seg_width = (10::real)\<rparr>
   \<and> 30 < fullLineWidth [\<lparr>seg_text = ''ab'', seg_isBold = False, seg_width = 10\<rparr>,
         \<lparr>seg_text = '' '', seg_isBold = False, seg_width = 5\<rparr>,
         \<lparr>seg_text = ''cd'', seg_isBold = False, seg_width = 10\<rparr>,
         \<lparr>seg_text = '' '', seg_isBold = False, seg_width = 5\<rparr>] + (10::real)
   \<and> breaks_forced 30 (wrap_lines half_em 10 30 Helvetica ''ab cd ef'')
   \<and> list_all (fits 30) (wrap_lines half_em 10 30 Helvetica ''ab cd ef'')
   \<and> fits_whole 30 (hd (wrap_lines half_em 10 30 Helvetica ''ab cd ef''))"
proof -
  let ?ab = "\<lparr>seg_text = ''ab'', seg_isBold = False, seg_width = (10::real)\<rparr>"
  let ?sp = "\<lparr>seg_text = '' '', seg_isBold = False, seg_width = (5::real)\<rparr>"
  let ?cd = "\<lparr>seg_text = ''cd'', seg_isBold = False, seg_width = (10::real)\<rparr>"
  let ?ef = "\<lparr>seg_text = ''ef'', seg_isBold = False, seg_width = (10::real)\<rparr>"
  note inst = only_visible_words_break_lines
    [of "''  ''" half_em 10 30 Helvetica False "[[?ab, ?sp, ?cd]]" 25
        "''  ''" half_em 10 30 Helvetica "[\<lparr>lw_text = ''abcde'', lw_font = Helvetica\<rparr>]" 25 first_page
        Helvetica "''ab cd ef''"]
  have blank: "trim ''  '' = []"
    by code_simp
  have lines: "wrap_lines half_em 10 30 Helvetica ''ab cd ef'' = [[?ab, ?sp, ?cd, ?sp], [?ef]]"
    by code_simp
  have vis: "visible ?cd" "visible ?ef"
    by code_simp+
  have step1: "add_word half_em 10 30 Helvetica False ([[?ab, ?sp, ?cd]], 25) ''  ''
      = ([[?ab, ?sp, ?cd, \<lparr>seg_text = ''  '', seg_isBold = False, seg_width = 10\<rparr>]], 35)"
    using inst blank by (simp add: half_em_def)
  have step2: "bullet_word half_em 10 30 Helvetica
        (([\<lparr>lw_text = ''abcde'', lw_font = Helvetica\<rparr>], 25), first_page) ''  ''
      = (([\<lparr>lw_text = ''abcde'', lw_font = Helvetica\<rparr>, \<lparr>lw_text = ''  '', lw_font = Helvetica\<rparr>], 35),
         first_page)"
    using inst blank by (simp add: half_em_def)
  have forced: "breaks_forced 30 (wrap_lines half_em 10 30 Helvetica ''ab cd ef'')"
    and all: "list_all (fits 30) (wrap_lines half_em 10 30 Helvetica ''ab cd ef'')"
    and whole: "fits_whole 30 (hd (wrap_lines half_em 10 30 Helvetica ''ab cd ef''))"
    using inst by blast+
  from whole have "\<not> 30 < fullLineWidth (take 3 [?ab, ?sp, ?cd, ?sp])"
    unfolding fits_whole_def lines using vis(1) by (drule_tac x = 3 in bspec) simp_all
  then have fit: "\<not> 30 < fullLineWidth [?ab, ?sp, ?cd]"
    by (simp add: numeral_3_eq_3)
  from forced have over: "30 < fullLineWidth [?ab, ?sp, ?cd, ?sp] + (10::real)"
    by (simp add: lines)
  from blank step1 step2 lines vis fit over forced all whole show ?thesis
    by (intro conjI) assumption+
qed

section \<open>C7: the span splitter at an unmatched marker\<close>

lemma split_ws_concat: "concat (split_ws cur s) = cur @ s"
  by (induction cur s rule: split_ws.induct) simp_all

lemma split_bold_concat: "concat (split_bold cur s) = cur @ s"
  by (induction cur s rule: split_bold.induct) (simp_all split: option.splits)

lemma segments_concat: "concat (segments txt) = txt"
proof -
  have "concat (filter (\<lambda>s. s \<noteq> []) xss) = concat xss" for xss :: "string list"
    by (induction xss) simp_all
  then show ?thesis by (simp add: segments_def split_bold_concat)
qed

lemma segments_unmatched: "segments ''**a****'' = [''**a**'', ''**'']"
  by code_simp

text \<open>
  C7 at the text \<open>**a****\<close>, for every font metric, size and width. The pattern
  matches the first five characters; the two stars left over form a segment of their
  own, which starts and ends with the marker and is therefore taken for a bold span
  with the text between its delimiters, the empty text. The emitted words are the
  bold \<open>a\<close> and a bold empty word: the unmatched marker is dropped, where the claim
  keeps it as regular text.
\<close>

theorem unmatched_marker_dropped:
  "segments ''**a****'' = [''**a**'', ''**'']
   \<and> map seg_text (concat (wrap_lines wd sz maxWidth defaultFont ''**a****'')) = [''a'', []]
   \<and> map seg_isBold (concat (wrap_lines wd sz maxWidth defaultFont ''**a****'')) = [True, True]"
  by (simp add: wrap_lines_concat measured_words_def segments_unmatched segment_words_def
      startsWith_def endsWith_def slice_def is_space_def)

section \<open>C10: a first word wider than the line\<close>

lemma foldl_push_blank:
  "list_all (\<lambda>s. \<not> visible s) pre \<Longrightarrow>
   foldl (push_seg mw) ([l], c) pre = ([l @ pre], c + sum_list (map seg_width pre))"
  by (induction pre arbitrary: l c) (simp_all add: push_seg_def Let_def add.assoc)

lemma foldl_push_prefix:
  "\<exists>l' ls'. fst (foldl (push_seg mw) (ls @ [l], c) ss) = ls @ (l @ l') # ls'"
proof (induction ss arbitrary: ls l c)
  case Nil
  show ?case by simp
next
  case (Cons s ss)
  show ?case
  proof (cases "c + seg_width s > mw \<and> visible s")
    case True
    then have "push_seg mw (ls @ [l], c) s = ((ls @ [l]) @ [[s]], 0 + seg_width s)"
      by (simp add: push_seg_def butlast_append)
    moreover obtain l' ls' where
      "fst (foldl (push_seg mw) ((ls @ [l]) @ [[s]], 0 + seg_width s) ss)
         = (ls @ [l]) @ ([s] @ l') # ls'"
      using Cons.IH [of "ls @ [l]" "[s]" "0 + seg_width s"] by blast
    ultimately have "fst (foldl (push_seg mw) (ls @ [l], c) (s # ss)) = ls @ (l @ []) # (([s] @ l') # ls')"
      by simp
    then show ?thesis by blast
  next
    case False
    then have "push_seg mw (ls @ [l], c) s = (ls @ [l @ [s]], c + seg_width s)"
      by (auto simp: push_seg_def)
    moreover obtain l' ls' where
      "fst (foldl (push_seg mw) (ls @ [l @ [s]], c + seg_width s) ss) = ls @ ((l @ [s]) @ l') # ls'"
      using Cons.IH [of ls "l @ [s]" "c + seg_width s"] by blast
    ultimately have "fst (foldl (push_seg mw) (ls @ [l], c) (s # ss)) = ls @ (l @ (s # l')) # ls'"
      by simp
    then show ?thesis by blast
  qed
qed

lemma sum_list_nonneg_widths:
  "list_all (\<lambda>s. \<not> visible s \<and> (0::real) \<le> seg_width s) pre \<Longrightarrow> 0 \<le> sum_list (map seg_width pre)"
  by (induction pre) simp_all

lemma oversize_word_second_line:
  assumes pre: "list_all (\<lambda>s. \<not> visible s \<and> (0::real) \<le> seg_width s) pre"
    and t: "visible t" "mw < seg_width t"
  shows "\<exists>l ls. fst (foldl (push_seg mw) ([[]], 0) (pre @ t # rest)) = pre # (t # l) # ls"
proof -
  from pre have blank: "list_all (\<lambda>s. \<not> visible s) pre"
    by (simp add: list_all_iff)
  have "foldl (push_seg mw) ([[]], 0) pre = ([pre], sum_list (map seg_width pre))"
    using foldl_push_blank [OF blank, of mw "[]" 0] by simp
  moreover have "push_seg mw ([pre], sum_list (map seg_width pre)) t = ([pre] @ [[t]], seg_width t)"
    using t sum_list_nonneg_widths [OF pre] by (simp add: push_seg_def)
  ultimately have "foldl (push_seg mw) ([[]], 0) (pre @ t # rest)
      = foldl (push_seg mw) ([pre] @ [[t]], seg_width t) rest"
    by simp
  moreover obtain l ls where
    "fst (foldl (push_seg mw) ([pre] @ [[t]], seg_width t) rest) = [pre] @ ([t] @ l) # ls"
    using foldl_push_prefix [of mw "[pre]" "[t]" "seg_width t" rest] by blast
  ultimately show ?thesis by simp
qed

text \<open>
  C10, as stated, fails when words precede the first visible word. The title line
  with two spaces after its marker hands drawRichText a text that starts with a
  space; the first wrapped line then holds an empty word and the space, not no words.
\<close>

theorem padded_title_counterexample:
  "remove_first ''# '' (trim padded_title) = '' Supercalifragilisticexpialidocious-Name-Of-Fifty''
   \<and> wrap_lines half_em 22 (width - margin * 2) HelveticaBold
        '' Supercalifragilisticexpialidocious-Name-Of-Fifty''
     = [[\<lparr>seg_text = [], seg_isBold = False, seg_width = 0\<rparr>,
         \<lparr>seg_text = '' '', seg_isBold = False, seg_width = 11\<rparr>],
        [\<lparr>seg_text = ''Supercalifragilisticexpialidocious-Name-Of-Fifty'', seg_isBold = False,
          seg_width = 528\<rparr>]]
   \<and> width - margin * 2 < 528"
  by code_simp

text \<open>
  C10, amended. When the first visible word of the text exceeds the maximum width
  alone (the words before it, all empty or white space, having widths that are not
  negative), the first wrapped line holds exactly the words before it, none when the
  text starts with that word, and the word opens the second line. drawRichText
  places that first line like any other: one page check, no visible text, and the
  cursor one line height lower before the line of the word is placed.
\<close>

theorem oversize_first_word_starts_second_line:
  assumes "measured_words wd (size_of opts) (defaultFont_of opts) txt = pre @ t # rest"
    and "list_all (\<lambda>s. \<not> visible s \<and> 0 \<le> seg_width s) pre"
    and "visible t" and "width - margin * 2 < seg_width t"
  shows "\<exists>l ls.
      wrap_lines wd (size_of opts) (width - margin * 2) (defaultFont_of opts) txt = pre # (t # l) # ls
      \<and> drawRichText wd txt opts L
          = (let draw = draw_line (size_of opts) (defaultFont_of opts) (color_of opts) (align_of opts);
                 L1 = foldl draw (draw L pre) ((t # l) # ls)
             in L1\<lparr>currentY := currentY L1 - size_of opts * 0.4\<rparr>)
      \<and> map run_text (drop (length (runs L))
            (runs (draw_line (size_of opts) (defaultFont_of opts) (color_of opts) (align_of opts) L pre)))
          = map seg_text pre
      \<and> currentY (draw_line (size_of opts) (defaultFont_of opts) (color_of opts) (align_of opts) L pre)
          = (if currentY L < margin + 20 then height - margin else currentY L) - size_of opts * 1.5"
proof -
  obtain l ls where
    "wrap_lines wd (size_of opts) (width - margin * 2) (defaultFont_of opts) txt = pre # (t # l) # ls"
    using oversize_word_second_line [OF assms(2-4), of rest] assms(1)
    by (auto simp: wrap_lines_push)
  then show ?thesis
    by (intro exI [of _ l] exI [of _ ls])
       (simp add: drawRichText_def Let_def draw_line_currentY draw_line_new_runs line_runs_text)
qed

theorem oversize_first_word_witness:
  "measured_words half_em (size_of title_options) (defaultFont_of title_options)
       '' Supercalifragilisticexpialidocious-Name-Of-Fifty''
     = [empty_word, space_word] @ wide_word # []
   \<and> list_all (\<lambda>s. \<not> visible s \<and> 0 \<le> seg_width s) [empty_word, space_word]
   \<and> visible wide_word
   \<and> width - margin * 2 < seg_width wide_word
   \<and> (\<exists>l ls.
        wrap_lines half_em (size_of title_options) (width - margin * 2) (defaultFont_of title_options)
            '' Supercalifragilisticexpialidocious-Name-Of-Fifty''
          = [empty_word, space_word] # (wide_word # l) # ls
        \<and> currentY (draw_line (size_of title_options) (defaultFont_of title_options)
              (color_of title_options) (align_of title_options) first_page [empty_word, space_word])
          = (if currentY first_page < margin + 20 then height - margin else currentY first_page)
              - size_of title_options * 1.5)"
proof -
  have h1: "measured_words half_em (size_of title_options) (defaultFont_of title_options)
       '' Supercalifragilisticexpialidocious-Name-Of-Fifty''
     = [empty_word, space_word] @ wide_word # []"
    by code_simp
  have h2: "list_all (\<lambda>s. \<not> visible s \<and> 0 \<le> seg_width s) [empty_word, space_word]"
    by code_simp
  have h3: "visible wide_word"
    by code_simp
  have h4: "width - margin * 2 < seg_width wide_word"
    by code_simp
  show ?thesis
    using oversize_first_word_starts_second_line [OF h1 h2 h3 h4, of first_page] h1 h2 h3 h4
    by (elim exE conjE) (intro conjI exI, assumption+)
qed

section \<open>C3: the page check\<close>

text \<open>
  C3, as stated, fails: the threshold is the margin plus 20, not the margin plus the
  line height. After 89 blank lines the cursor is at 79.89; a title (size 22, line
  height 33) is then placed on the first page at 79.89, below the margin plus its
  line height, 83.
\<close>

theorem title_threshold_counterexample:
  "runs (layout_content half_em title_low_on_page)
     = [\<lparr>run_page = 0, run_text = ''T'', run_x = 292.14, run_y = 79.89, run_size = 22,
         run_font = HelveticaBold, run_color = rgb 0 0 0\<rparr>]
   \<and> (79.89 :: real) < margin + 22 * 1.5"
  by code_simp

text \<open>
  C3, amended. When the cursor is below the margin plus 20 as drawRichText is about
  to place a wrapped line, a page is added first, every run of the line is placed on
  it at the page height minus the margin exactly, and the cursor ends one line
  height below. In the bullet branch the test comes after a flushed line and its
  cursor step: when the stepped cursor is below the margin plus 20, the next line
  starts on a new page at the page height minus the margin.
\<close>

theorem new_page_below_fixed_threshold:
  "(currentY L < margin + 20 \<longrightarrow>
      page (draw_line sz f col al L l) = Suc (page L)
      \<and> list_all (\<lambda>r. run_page r = Suc (page L) \<and> run_y r = height - margin)
          (drop (length (runs L)) (runs (draw_line sz f col al L l)))
      \<and> map run_text (drop (length (runs L)) (runs (draw_line sz f col al L l))) = map seg_text l
      \<and> currentY (draw_line sz f col al L l) = height - margin - sz * 1.5)
   \<and> (currentY L' - sz' * 1.5 < margin + 20 \<longrightarrow>
      page (flush_line wd sz' L' ws) = Suc (page L')
      \<and> currentY (flush_line wd sz' L' ws) = height - margin)"
  by (simp add: draw_line_page draw_line_currentY draw_line_new_runs line_runs_place line_runs_text
      flush_line_def Let_def draw_words_eq addPage_def)

theorem new_page_below_fixed_threshold_witness:
  "currentY low_page < margin + 20
   \<and> page (draw_line 10 Helvetica (rgb 0 0 0) AlignLeft low_page [short_word]) = Suc (page low_page)
   \<and> runs (draw_line 10 Helvetica (rgb 0 0 0) AlignLeft low_page [short_word])
       = [\<lparr>run_page = 1, run_text = ''x'', run_x = 50, run_y = 791.89, run_size = 10,
           run_font = Helvetica, run_color = rgb 0 0 0\<rparr>]
   \<and> currentY (draw_line 10 Helvetica (rgb 0 0 0) AlignLeft low_page [short_word])
       = height - margin - 10 * 1.5
   \<and> currentY mid_page - 10 * 1.5 < margin + 20
   \<and> page (flush_line half_em 10 mid_page [to_line_word short_word]) = Suc (page mid_page)
   \<and> currentY (flush_line half_em 10 mid_page [to_line_word short_word]) = height - margin"
proof -
  have h1: "currentY low_page < margin + 20"
    by (simp add: low_page_def margin_def)
  have h2: "currentY mid_page - 10 * 1.5 < margin + 20"
    by (simp add: mid_page_def margin_def)
  have r: "runs (draw_line 10 Helvetica (rgb 0 0 0) AlignLeft low_page [short_word])
       = [\<lparr>run_page = 1, run_text = ''x'', run_x = 50, run_y = 791.89, run_size = 10,
           run_font = Helvetica, run_color = rgb 0 0 0\<rparr>]"
    by code_simp
  show ?thesis
    using new_page_below_fixed_threshold
      [of low_page 10 Helvetica "rgb 0 0 0" AlignLeft "[short_word]" mid_page 10 half_em
          "[to_line_word short_word]"] h1 h2 r
    by blast
qed

section \<open>C2: text below the bottom margin\<close>

text \<open>drawRichText places every run at the margin plus 20 or higher.\<close>

lemma foldl_draw_line_runs:
  "\<exists>new. runs (foldl (draw_line sz f col al) L ls) = runs L @ new
         \<and> list_all (\<lambda>r. margin + 20 \<le> run_y r) new"
proof (induction ls arbitrary: L)
  case Nil
  show ?case by simp
next
  case (Cons l ls)
  let ?y = "if currentY L < margin + 20 then height - margin else currentY L"
  let ?L1 = "draw_line sz f col al L l"
  have y: "margin + 20 \<le> ?y"
    by (simp add: height_def margin_def)
  obtain first where first: "runs ?L1 = runs L @ first"
    "list_all (\<lambda>r. run_y r = ?y) first"
    using line_runs_place [of _ ?y sz f col _ l]
    by (auto simp: draw_line_eq Let_def addPage_def list_all_iff)
  obtain new where new: "runs (foldl (draw_line sz f col al) ?L1 ls) = runs ?L1 @ new"
    "list_all (\<lambda>r. margin + 20 \<le> run_y r) new"
    using Cons.IH [of ?L1] by blast
  from first(2) y have "list_all (\<lambda>r. margin + 20 \<le> run_y r) first"
    by (auto simp: list_all_iff)
  with first(1) new show ?case
    by (intro exI [of _ "first @ new"]) simp
qed

lemma drawRichText_runs_above_margin:
  "\<exists>new. runs (drawRichText wd txt opts L) = runs L @ new
         \<and> list_all (\<lambda>r. margin + 20 \<le> run_y r) new"
  using foldl_draw_line_runs by (simp add: drawRichText_def Let_def)

text \<open>
  C2 at a list of 48 one-word bullets. The bullet branch draws its glyph and its
  first line without a page check, and a bullet that does not wrap never reaches the
  check after a flush: each bullet lowers the cursor by 17 and the document stays at
  one page. The last glyph and word are placed on the first page at \<open>-7.11\<close>, below
  the bottom margin and below the page.
\<close>

theorem bullets_run_off_the_page:
  "drop 94 (runs (layout_content half_em bullet_list))
     = [\<lparr>run_page = 0, run_text = bullet_glyph, run_x = 50, run_y = - 7.11, run_size = 12,
         run_font = Helvetica, run_color = rgb 0 0 0\<rparr>,
        \<lparr>run_page = 0, run_text = ''x'', run_x = 65, run_y = - 7.11, run_size = 10,
         run_font = Helvetica, run_color = rgb 0 0 0\<rparr>]"
  by code_simp

section \<open>C6: the line after a title\<close>

text \<open>
  C6 at a title typed with two leading spaces. The classifier trims the line and
  draws it as a title, but the look-back reads the untrimmed line, which does not
  start with the marker: the next line is placed at the left margin in black. After
  the same title without the leading spaces it is centred in the muted colour. The
  other way round, a line made of the marker alone, \<open>#\<close> and a space, is trimmed to
  \<open>#\<close> and drawn as a body line, yet the line after it is centred and muted.
\<close>

theorem contact_after_indented_title:
  "runs (layout_content half_em indented_title)
     = [\<lparr>run_page = 0, run_text = ''Jane'', run_x = 253.64, run_y = 791.89, run_size = 22,
         run_font = HelveticaBold, run_color = rgb 0 0 0\<rparr>,
        \<lparr>run_page = 0, run_text = '' '', run_x = 297.64, run_y = 791.89, run_size = 22,
         run_font = HelveticaBold, run_color = rgb 0 0 0\<rparr>,
        \<lparr>run_page = 0, run_text = ''Doe'', run_x = 308.64, run_y = 791.89, run_size = 22,
         run_font = HelveticaBold, run_color = rgb 0 0 0\<rparr>,
        \<lparr>run_page = 0, run_text = ''jane@x.com'', run_x = margin, run_y = 740.09, run_size = 10,
         run_font = Helvetica, run_color = rgb 0 0 0\<rparr>]
   \<and> runs (layout_content half_em plain_title)
     = [\<lparr>run_page = 0, run_text = ''Jane'', run_x = 253.64, run_y = 791.89, run_size = 22,
         run_font = HelveticaBold, run_color = rgb 0 0 0\<rparr>,
        \<lparr>run_page = 0, run_text = '' '', run_x = 297.64, run_y = 791.89, run_size = 22,
         run_font = HelveticaBold, run_color = rgb 0 0 0\<rparr>,
        \<lparr>run_page = 0, run_text = ''Doe'', run_x = 308.64, run_y = 791.89, run_size = 22,
         run_font = HelveticaBold, run_color = rgb 0 0 0\<rparr>,
        \<lparr>run_page = 0, run_text = ''jane@x.com'', run_x = (width - 50) / 2, run_y = 740.09,
         run_size = 10, run_font = Helvetica, run_color = rgb 0.3 0.3 0.3\<rparr>]
   \<and> runs (layout_content half_em bare_marker)
     = [\<lparr>run_page = 0, run_text = ''#'', run_x = margin, run_y = 791.89, run_size = 10,
         run_font = Helvetica, run_color = rgb 0 0 0\<rparr>,
        \<lparr>run_page = 0, run_text = ''foo'', run_x = (width - 15) / 2, run_y = 772.89,
         run_size = 10, run_font = Helvetica, run_color = rgb 0.3 0.3 0.3\<rparr>]"
  by code_simp

end
